theory Spec2Isabelle
  imports Main "HOL-Library.Multiset"
begin

section \<open>Secure notes: a model of app.py\<close>

text \<open>
  The application is a Flask service over MongoDB, Werkzeug password hashing and PyJWT.
  The handlers of \<^verbatim>\<open>src/app.py\<close> are embedded as functions on an explicit database
  state. What the source reads from its surroundings is an argument of the model:
  the clock, the object id MongoDB generates and the salt Werkzeug draws are the
  fields of \<open>env\<close>; the application configuration is \<open>config\<close>; the two
  cryptographic libraries are the fields of \<open>crypto\<close>, about which the theorems
  assume only what they state. A raised exception is a value \<open>Inl e\<close>.

  Strings are lists of 8-bit characters, one character per code point, so the model
  covers text in the Latin-1 range. Times are integers counting seconds. The response
  headers added by \<^verbatim>\<open>after_request\<close>, logging and the health check are not part of
  the model.
\<close>

subsection \<open>Python values\<close>

datatype exn =
    AttributeError
  | TypeError
  | KeyError
  | ValueError
  | OverflowError
  | InvalidId
  | DuplicateKeyError
  | ExpiredSignatureError
  | InvalidTokenError

text \<open>
  A parsed JSON body. A Python \<^verbatim>\<open>dict\<close> is an association list read with
  \<^const>\<open>map_of\<close>; \<^verbatim>\<open>None\<close> is \<open>JNull\<close>. Form fields are strings, so a form
  is a \<open>JObj\<close> of \<open>JStr\<close> values. Timestamps in a response are \<open>JNum\<close>.
\<close>

datatype json =
    JNull
  | JBool bool
  | JNum int
  | JStr string
  | JArr "json list"
  | JObj "(string \<times> json) list"

text \<open>Python truthiness: \<^verbatim>\<open>not v\<close> is \<open>\<not> truthy v\<close>.\<close>

fun truthy :: "json \<Rightarrow> bool" where
  "truthy JNull = False"
| "truthy (JBool b) = b"
| "truthy (JNum n) = (n \<noteq> 0)"
| "truthy (JStr s) = (s \<noteq> [])"
| "truthy (JArr xs) = (xs \<noteq> [])"
| "truthy (JObj kvs) = (kvs \<noteq> [])"

text \<open>\<^verbatim>\<open>data.get(key, default)\<close>: only a dict has the method.\<close>

fun dict_get :: "json \<Rightarrow> string \<Rightarrow> json \<Rightarrow> exn + json" where
  "dict_get (JObj kvs) k d = Inr (case map_of kvs k of None \<Rightarrow> d | Some v \<Rightarrow> v)"
| "dict_get _ k d = Inl AttributeError"

text \<open>
  \<^verbatim>\<open>str.isspace\<close> on the code points below 256: tab to carriage return, the four
  separators 28 to 31, the space, NEL (133) and the no-break space (160).
\<close>

definition isspace :: "char \<Rightarrow> bool" where
  "isspace c = ((of_char c :: nat) \<in> {9, 10, 11, 12, 13, 28, 29, 30, 31, 32, 133, 160})"

definition strip :: "string \<Rightarrow> string" where
  "strip s = rev (dropWhile isspace (rev (dropWhile isspace s)))"

text \<open>\<^verbatim>\<open>v.strip()\<close>: only a string has the method.\<close>

fun py_strip :: "json \<Rightarrow> exn + string" where
  "py_strip (JStr s) = Inr (strip s)"
| "py_strip _ = Inl AttributeError"

text \<open>\<^verbatim>\<open>len(v)\<close>: defined on strings, lists and dicts.\<close>

fun py_len :: "json \<Rightarrow> exn + nat" where
  "py_len (JStr s) = Inr (length s)"
| "py_len (JArr xs) = Inr (length xs)"
| "py_len (JObj kvs) = Inr (length kvs)"
| "py_len _ = Inl TypeError"

text \<open>\<open>is_substring p s\<close>: Python's \<^verbatim>\<open>p in s\<close> on two strings.\<close>

fun is_substring :: "string \<Rightarrow> string \<Rightarrow> bool" where
  "is_substring p [] = (p = [])"
| "is_substring p (c # cs) = (take (length p) (c # cs) = p \<or> is_substring p cs)"

text \<open>
  \<^verbatim>\<open>key in data\<close> followed by \<^verbatim>\<open>data[key]\<close>, as \<^verbatim>\<open>note_detail\<close> does for each
  field: \<open>Inr None\<close> when the key is not in \<open>data\<close>, \<open>Inr (Some v)\<close> when a dict
  holds it. On a list or a string the membership test is defined (an element, a
  substring) and the subscript with a string key raises; on \<^verbatim>\<open>None\<close>, a boolean
  or a number the membership test itself raises.
\<close>

fun field_if_present :: "json \<Rightarrow> string \<Rightarrow> exn + json option" where
  "field_if_present (JObj kvs) k = Inr (map_of kvs k)"
| "field_if_present (JArr xs) k = (if JStr k \<in> set xs then Inl TypeError else Inr None)"
| "field_if_present (JStr s) k = (if is_substring k s then Inl TypeError else Inr None)"
| "field_if_present _ k = Inl TypeError"

subsection \<open>Object ids\<close>

text \<open>
  An object id is kept in the form \<^verbatim>\<open>str\<close> prints it: 24 lower-case hexadecimal
  digits. \<^verbatim>\<open>ObjectId(s)\<close> accepts a string of 24 hexadecimal digits of either case
  and raises \<^verbatim>\<open>InvalidId\<close> otherwise.
\<close>

type_synonym oid = string

definition ishex :: "char \<Rightarrow> bool" where
  "ishex c = (c \<in> set ''0123456789abcdefABCDEF'')"

definition hexlower :: "char \<Rightarrow> char" where
  "hexlower c =
     (if c = CHR ''A'' then CHR ''a'' else if c = CHR ''B'' then CHR ''b''
      else if c = CHR ''C'' then CHR ''c'' else if c = CHR ''D'' then CHR ''d''
      else if c = CHR ''E'' then CHR ''e'' else if c = CHR ''F'' then CHR ''f'' else c)"

definition ObjectId :: "string \<Rightarrow> exn + oid" where
  "ObjectId s = (if length s = 24 \<and> list_all ishex s then Inr (map hexlower s) else Inl InvalidId)"

definition str_oid :: "oid \<Rightarrow> string" where
  "str_oid i = i"

subsection \<open>The database\<close>

type_synonym time = int

record user =
  u_id :: oid
  username :: string
  password :: string
  u_created_at :: time

text \<open>
  The update handler stores whatever JSON value the request carries, so the title and
  the content of a stored note are JSON values.
\<close>

record note_doc =
  n_id :: oid
  user_id :: oid
  title :: json
  content :: json
  created_at :: time
  updated_at :: time

record db =
  users :: "user list"
  notes_coll :: "note_doc list"

text \<open>\<^verbatim>\<open>find_one(filter)\<close>: the first document that matches.\<close>

definition find_one :: "('a \<Rightarrow> bool) \<Rightarrow> 'a list \<Rightarrow> 'a option" where
  "find_one p xs = List.find p xs"

text \<open>
  \<^verbatim>\<open>insert_one\<close>: the collection has a unique index on \<^verbatim>\<open>_id\<close>, so a document
  whose id is taken is refused.
\<close>

definition insert_one :: "('a \<Rightarrow> oid) \<Rightarrow> 'a \<Rightarrow> 'a list \<Rightarrow> exn + 'a list" where
  "insert_one ident d xs = (if ident d \<in> set (map ident xs) then Inl DuplicateKeyError else Inr (xs @ [d]))"

text \<open>\<^verbatim>\<open>update_one(filter, {'$set': ...})\<close>: the first match is changed.\<close>

fun update_one :: "('a \<Rightarrow> bool) \<Rightarrow> ('a \<Rightarrow> 'a) \<Rightarrow> 'a list \<Rightarrow> 'a list" where
  "update_one p f [] = []"
| "update_one p f (x # xs) = (if p x then f x # xs else x # update_one p f xs)"

text \<open>\<^verbatim>\<open>delete_one(filter)\<close>: the first match is removed.\<close>

fun delete_one :: "('a \<Rightarrow> bool) \<Rightarrow> 'a list \<Rightarrow> 'a list" where
  "delete_one p [] = []"
| "delete_one p (x # xs) = (if p x then xs else x # delete_one p xs)"

text \<open>
  The cursor of \<^verbatim>\<open>find\<close>. \<^verbatim>\<open>sort('updated_at', -1)\<close> is a descending sort; the
  order among equal keys, which MongoDB leaves open, is the insertion order here.
  \<^verbatim>\<open>skip\<close> raises \<^verbatim>\<open>ValueError\<close> on a negative number. \<^verbatim>\<open>limit(0)\<close> is no limit
  and a negative limit counts as its absolute value. A number beyond 64 bits cannot be
  encoded in the query and raises \<^verbatim>\<open>OverflowError\<close>.
\<close>

definition int64_max :: int where
  "int64_max = 2 ^ 63 - 1"

definition sort_desc :: "note_doc list \<Rightarrow> note_doc list" where
  "sort_desc xs = sort_key (\<lambda>n. - updated_at n) xs"

definition cursor_skip :: "int \<Rightarrow> 'a list \<Rightarrow> exn + 'a list" where
  "cursor_skip k xs =
     (if k < 0 then Inl ValueError
      else if k > int64_max then Inl OverflowError
      else Inr (drop (nat k) xs))"

definition cursor_limit :: "int \<Rightarrow> 'a list \<Rightarrow> exn + 'a list" where
  "cursor_limit l xs =
     (if \<bar>l\<bar> > int64_max then Inl OverflowError
      else if l = 0 then Inr xs
      else Inr (take (nat \<bar>l\<bar>) xs))"

subsection \<open>Requests, responses and the surroundings\<close>

datatype http_method = GET | POST | PUT | DELETE

text \<open>
  What the handlers read of Flask's \<^verbatim>\<open>request\<close>. \<open>get_json\<close> is the value
  \<^verbatim>\<open>request.get_json()\<close> returns. \<open>arg_page\<close> and \<open>arg_per_page\<close> are the query
  arguments as \<^verbatim>\<open>request.args.get(key, default, type=int)\<close> converts them:
  \<open>None\<close> when the argument is missing or is not an integer, which is when the
  default is taken.
\<close>

record request =
  req_method :: http_method
  req_cookies :: "(string \<times> string) list"
  is_json :: bool
  get_json :: json
  req_form :: "(string \<times> string) list"
  arg_page :: "int option"
  arg_per_page :: "int option"

record cookie =
  c_name :: string
  c_value :: string
  c_httponly :: bool
  c_secure :: bool
  c_samesite :: "string option"
  c_max_age :: "int option"
  c_expires :: "int option"

datatype body = JsonBody json | Template string | RedirectTo string

record response =
  status :: nat
  body :: body
  set_cookie :: "cookie option"

definition jsonify :: "json \<Rightarrow> nat \<Rightarrow> response" where
  "jsonify v code = \<lparr>status = code, body = JsonBody v, set_cookie = None\<rparr>"

definition json_error :: "string \<Rightarrow> nat \<Rightarrow> response" where
  "json_error msg code = jsonify (JObj [(''error'', JStr msg)]) code"

definition json_message :: "string \<Rightarrow> nat \<Rightarrow> response" where
  "json_message msg code = jsonify (JObj [(''message'', JStr msg)]) code"

definition render_template :: "string \<Rightarrow> response" where
  "render_template name = \<lparr>status = 200, body = Template name, set_cookie = None\<rparr>"

definition redirect :: "string \<Rightarrow> response" where
  "redirect endpoint = \<lparr>status = 302, body = RedirectTo endpoint, set_cookie = None\<rparr>"

text \<open>
  \<open>now\<close> is \<^verbatim>\<open>datetime.utcnow()\<close> during the request, \<open>new_id\<close> the object id
  MongoDB gives a document inserted during the request, \<open>salt\<close> the salt
  \<^verbatim>\<open>generate_password_hash\<close> draws.
\<close>

record env =
  now :: time
  new_id :: oid
  salt :: string

text \<open>
  \<^verbatim>\<open>app.config\<close>: the signing secret and whether \<^verbatim>\<open>FLASK_ENV\<close> is
  \<^verbatim>\<open>production\<close>. The token lifetime is the constant of line 31, 24 hours.
\<close>

record config =
  SECRET_KEY :: string
  production :: bool

definition JWT_EXPIRATION_DELTA :: int where
  "JWT_EXPIRATION_DELTA = 24 * 3600"

text \<open>
  The claims of a token, and the library functions the source calls:
  \<^verbatim>\<open>generate_password_hash\<close> (with the salt it draws as an argument),
  \<^verbatim>\<open>check_password_hash\<close>, \<^verbatim>\<open>jwt.encode\<close> and \<^verbatim>\<open>jwt.decode\<close> (with the time of
  the call as an argument). They are parameters of the model.
\<close>

record jwt_claims =
  claim_user_id :: "string option"
  claim_exp :: "time option"

record crypto =
  generate_password_hash :: "string \<Rightarrow> string \<Rightarrow> string"
  check_password_hash :: "string \<Rightarrow> string \<Rightarrow> bool"
  jwt_encode :: "jwt_claims \<Rightarrow> string \<Rightarrow> string"
  jwt_decode :: "string \<Rightarrow> string \<Rightarrow> time \<Rightarrow> exn + jwt_claims"

text \<open>Sequencing of steps that may raise.\<close>

definition exn_bind :: "exn + 'a \<Rightarrow> ('a \<Rightarrow> exn + 'b) \<Rightarrow> exn + 'b" where
  "exn_bind m f = (case m of Inl e \<Rightarrow> Inl e | Inr x \<Rightarrow> f x)"

text \<open>
  A handler maps the database to an escaping exception or a response, and the new
  database. \<open>except_500\<close> is the \<^verbatim>\<open>try ... except Exception\<close> that wraps a handler
  body: an exception leaves the database as it was and answers 500 with the
  handler's message.
\<close>

type_synonym handler = "db \<Rightarrow> (exn + response) \<times> db"

definition except_500 :: "string \<Rightarrow> exn + (response \<times> db) \<Rightarrow> db \<Rightarrow> (exn + response) \<times> db" where
  "except_500 msg r s =
     (case r of Inl e \<Rightarrow> (Inr (json_error msg 500), s) | Inr (resp, s') \<Rightarrow> (Inr resp, s'))"

subsection \<open>token_required\<close>

definition token_required :: "crypto \<Rightarrow> config \<Rightarrow> env \<Rightarrow> request \<Rightarrow> (string \<Rightarrow> handler) \<Rightarrow> handler" where
  "token_required lib cfg e req f s =
     (case map_of (req_cookies req) ''token'' of
        None \<Rightarrow> (Inr (redirect ''login''), s)
      | Some token \<Rightarrow>
          if token = [] then (Inr (redirect ''login''), s)
          else (case jwt_decode lib token (SECRET_KEY cfg) (now e) of
                  Inl x \<Rightarrow>
                    if x = ExpiredSignatureError then (Inr (redirect ''login''), s)
                    else if x = InvalidTokenError then (Inr (redirect ''login''), s)
                    else (Inl x, s)
                | Inr data \<Rightarrow>
                    (case claim_user_id data of
                       None \<Rightarrow> (Inl KeyError, s)
                     | Some current_user_id \<Rightarrow> f current_user_id s)))"

subsection \<open>register, login, logout\<close>

definition request_data :: "request \<Rightarrow> json" where
  "request_data req =
     (if is_json req then get_json req else JObj (map (\<lambda>(k, v). (k, JStr v)) (req_form req)))"

text \<open>
  The body of \<^verbatim>\<open>register\<close> under \<^verbatim>\<open>try\<close>. The length of the password is taken
  with \<^verbatim>\<open>len\<close>, which a list or a dict passes too; hashing then needs a string.
\<close>

definition register_post :: "crypto \<Rightarrow> env \<Rightarrow> request \<Rightarrow> db \<Rightarrow> exn + (response \<times> db)" where
  "register_post lib e req s =
     exn_bind (dict_get (request_data req) ''username'' (JStr [])) (\<lambda>uv.
     exn_bind (py_strip uv) (\<lambda>uname.
     exn_bind (dict_get (request_data req) ''password'' (JStr [])) (\<lambda>pw.
       if uname = [] \<or> \<not> truthy pw then Inr (json_error ''Username and password required'' 400, s)
       else if length uname < 3 \<or> length uname > 50
         then Inr (json_error ''Username must be 3-50 characters'' 400, s)
       else exn_bind (py_len pw) (\<lambda>n.
         if n < 6 then Inr (json_error ''Password must be at least 6 characters'' 400, s)
         else if find_one (\<lambda>u. username u = uname) (users s) \<noteq> None
           then Inr (json_error ''Username already exists'' 400, s)
         else (case pw of
                 JStr p \<Rightarrow>
                   exn_bind (insert_one u_id
                       \<lparr>u_id = new_id e, username = uname,
                        password = generate_password_hash lib (salt e) p,
                        u_created_at = now e\<rparr> (users s)) (\<lambda>us.
                     Inr (json_message ''User created successfully'' 201, s\<lparr>users := us\<rparr>))
               | _ \<Rightarrow> Inl AttributeError)))))"

definition register :: "crypto \<Rightarrow> env \<Rightarrow> request \<Rightarrow> handler" where
  "register lib e req s =
     (if req_method req = POST then except_500 ''Registration failed'' (register_post lib e req s) s
      else (Inr (render_template ''register.html''), s))"

definition session_cookie :: "config \<Rightarrow> string \<Rightarrow> cookie" where
  "session_cookie cfg token =
     \<lparr>c_name = ''token'', c_value = token, c_httponly = True, c_secure = production cfg,
      c_samesite = Some ''Lax'', c_max_age = Some 86400, c_expires = None\<rparr>"

text \<open>
  The body of \<^verbatim>\<open>login\<close> under \<^verbatim>\<open>try\<close>. The hash is checked only when a user was
  found, and checking needs a string.
\<close>

definition login_post :: "crypto \<Rightarrow> config \<Rightarrow> env \<Rightarrow> request \<Rightarrow> db \<Rightarrow> exn + (response \<times> db)" where
  "login_post lib cfg e req s =
     exn_bind (dict_get (request_data req) ''username'' (JStr [])) (\<lambda>uv.
     exn_bind (py_strip uv) (\<lambda>uname.
     exn_bind (dict_get (request_data req) ''password'' (JStr [])) (\<lambda>pw.
       if uname = [] \<or> \<not> truthy pw then Inr (json_error ''Username and password required'' 400, s)
       else (case find_one (\<lambda>u. username u = uname) (users s) of
               None \<Rightarrow> Inr (json_error ''Invalid credentials'' 401, s)
             | Some u \<Rightarrow>
                 (case pw of
                    JStr p \<Rightarrow>
                      if check_password_hash lib (password u) p
                      then Inr ((json_message ''Login successful'' 200)
                                  \<lparr>set_cookie := Some (session_cookie cfg
                                     (jwt_encode lib
                                        \<lparr>claim_user_id = Some (str_oid (u_id u)),
                                         claim_exp = Some (now e + JWT_EXPIRATION_DELTA)\<rparr>
                                        (SECRET_KEY cfg)))\<rparr>, s)
                      else Inr (json_error ''Invalid credentials'' 401, s)
                  | _ \<Rightarrow> Inl AttributeError)))))"

definition login :: "crypto \<Rightarrow> config \<Rightarrow> env \<Rightarrow> request \<Rightarrow> handler" where
  "login lib cfg e req s =
     (if req_method req = POST then except_500 ''Login failed'' (login_post lib cfg e req s) s
      else (Inr (render_template ''login.html''), s))"

definition logout :: handler where
  "logout s =
     (Inr ((redirect ''login'')
        \<lparr>set_cookie := Some \<lparr>c_name = ''token'', c_value = [], c_httponly = False,
            c_secure = False, c_samesite = None, c_max_age = None, c_expires = Some 0\<rparr>\<rparr>), s)"

definition dashboard :: "string \<Rightarrow> handler" where
  "dashboard current_user_id s = (Inr (render_template ''dashboard.html''), s)"

subsection \<open>notes\<close>

text \<open>
  The handler \<^verbatim>\<open>notes\<close> is \<open>notes_view\<close> here. Its creation branch, under
  \<^verbatim>\<open>try\<close>:
\<close>

definition notes_post :: "string \<Rightarrow> env \<Rightarrow> request \<Rightarrow> db \<Rightarrow> exn + (response \<times> db)" where
  "notes_post current_user_id e req s =
     (if \<not> truthy (get_json req) then Inr (json_error ''Invalid JSON data'' 400, s)
      else
        exn_bind (dict_get (get_json req) ''title'' (JStr [])) (\<lambda>tv.
        exn_bind (py_strip tv) (\<lambda>t.
        exn_bind (dict_get (get_json req) ''content'' (JStr [])) (\<lambda>cv.
        exn_bind (py_strip cv) (\<lambda>c.
          if c = [] then Inr (json_error ''Content is required'' 400, s)
          else if length c > 10000
            then Inr (json_error ''Content too long (max 10,000 characters)'' 400, s)
          else if length t > 200
            then Inr (json_error ''Title too long (max 200 characters)'' 400, s)
          else
            exn_bind (ObjectId current_user_id) (\<lambda>owner.
            exn_bind (insert_one n_id
                \<lparr>n_id = new_id e, user_id = owner, title = JStr t, content = JStr c,
                 created_at = now e, updated_at = now e\<rparr> (notes_coll s)) (\<lambda>ns.
              Inr (jsonify (JObj [(''message'', JStr ''Note created''),
                                  (''note_id'', JStr (str_oid (new_id e)))]) 201,
                   s\<lparr>notes_coll := ns\<rparr>))))))))"

text \<open>
  The query of the listing branch: the notes of one owner, newest update first, after
  \<^verbatim>\<open>skip\<close> and \<^verbatim>\<open>limit\<close>.
\<close>

definition find_notes :: "oid \<Rightarrow> int \<Rightarrow> int \<Rightarrow> note_doc list \<Rightarrow> exn + note_doc list" where
  "find_notes owner k l ns =
     exn_bind (cursor_skip k (sort_desc (filter (\<lambda>n. user_id n = owner) ns))) (cursor_limit l)"

text \<open>The projection of a note that is sent: the owner is left out, the id is printed.\<close>

definition note_json :: "note_doc \<Rightarrow> json" where
  "note_json n =
     JObj [(''_id'', JStr (str_oid (n_id n))), (''title'', title n), (''content'', content n),
           (''created_at'', JNum (created_at n)), (''updated_at'', JNum (updated_at n))]"

definition req_page :: "request \<Rightarrow> int" where
  "req_page req = (case arg_page req of None \<Rightarrow> 1 | Some p \<Rightarrow> p)"

definition req_per_page :: "request \<Rightarrow> int" where
  "req_per_page req = min (case arg_per_page req of None \<Rightarrow> 20 | Some p \<Rightarrow> p) 100"

definition notes_get :: "string \<Rightarrow> request \<Rightarrow> db \<Rightarrow> exn + (response \<times> db)" where
  "notes_get current_user_id req s =
     exn_bind (ObjectId current_user_id) (\<lambda>owner.
     exn_bind (find_notes owner ((req_page req - 1) * req_per_page req) (req_per_page req)
                 (notes_coll s)) (\<lambda>ns.
       Inr (jsonify (JArr (map note_json ns)) 200, s)))"

definition notes_view :: "env \<Rightarrow> request \<Rightarrow> string \<Rightarrow> handler" where
  "notes_view e req current_user_id s =
     except_500 ''Operation failed''
       (if req_method req = POST then notes_post current_user_id e req s
        else notes_get current_user_id req s) s"

subsection \<open>note_detail\<close>

text \<open>
  The \<^verbatim>\<open>$set\<close> document of an update: \<^verbatim>\<open>updated_at\<close> always, the title and the
  content when the request had them.
\<close>

definition set_fields :: "time \<Rightarrow> json option \<Rightarrow> json option \<Rightarrow> note_doc \<Rightarrow> note_doc" where
  "set_fields t new_title new_content n =
     n\<lparr>updated_at := t,
       title := (case new_title of None \<Rightarrow> title n | Some v \<Rightarrow> v),
       content := (case new_content of None \<Rightarrow> content n | Some v \<Rightarrow> v)\<rparr>"

text \<open>
  Only the conversion of the note id is under \<^verbatim>\<open>try\<close>; any other exception leaves
  the handler. The route admits PUT and DELETE; on another method the function
  would fall off its end, which Flask refuses with a \<^verbatim>\<open>TypeError\<close>.
\<close>

definition note_detail :: "env \<Rightarrow> request \<Rightarrow> string \<Rightarrow> string \<Rightarrow> handler" where
  "note_detail e req note_id current_user_id s =
     (case ObjectId note_id of
        Inl x \<Rightarrow> (Inr (json_error ''Invalid note ID'' 400), s)
      | Inr note_obj_id \<Rightarrow>
          (case ObjectId current_user_id of
             Inl x \<Rightarrow> (Inl x, s)
           | Inr owner \<Rightarrow>
               (case find_one (\<lambda>n. n_id n = note_obj_id \<and> user_id n = owner) (notes_coll s) of
                  None \<Rightarrow> (Inr (json_error ''Note not found'' 404), s)
                | Some found \<Rightarrow>
                    if req_method req = PUT then
                      (case field_if_present (get_json req) ''title'' of
                         Inl x \<Rightarrow> (Inl x, s)
                       | Inr new_title \<Rightarrow>
                           (case field_if_present (get_json req) ''content'' of
                              Inl x \<Rightarrow> (Inl x, s)
                            | Inr new_content \<Rightarrow>
                                (Inr (json_message ''Note updated'' 200),
                                 s\<lparr>notes_coll :=
                                     update_one (\<lambda>n. n_id n = note_obj_id)
                                       (set_fields (now e) new_title new_content)
                                       (notes_coll s)\<rparr>)))
                    else if req_method req = DELETE then
                      (Inr (json_message ''Note deleted'' 200),
                       s\<lparr>notes_coll := delete_one (\<lambda>n. n_id n = note_obj_id) (notes_coll s)\<rparr>)
                    else (Inl TypeError, s))))"

subsection \<open>The routes\<close>

text \<open>
  The three guarded routes are the handlers under \<^const>\<open>token_required\<close>, as the
  decorators compose them.
\<close>

definition route_dashboard :: "crypto \<Rightarrow> config \<Rightarrow> env \<Rightarrow> request \<Rightarrow> handler" where
  "route_dashboard lib cfg e req = token_required lib cfg e req dashboard"

definition route_notes :: "crypto \<Rightarrow> config \<Rightarrow> env \<Rightarrow> request \<Rightarrow> handler" where
  "route_notes lib cfg e req = token_required lib cfg e req (notes_view e req)"

definition route_note_detail :: "crypto \<Rightarrow> config \<Rightarrow> env \<Rightarrow> request \<Rightarrow> string \<Rightarrow> handler" where
  "route_note_detail lib cfg e req note_id = token_required lib cfg e req (note_detail e req note_id)"

text \<open>
  \<^verbatim>\<open>index\<close> sends a request with a token that decodes to the dashboard and every
  other request to the login page; any exception of the decoding is passed over.
\<close>

definition index :: "crypto \<Rightarrow> config \<Rightarrow> env \<Rightarrow> request \<Rightarrow> handler" where
  "index lib cfg e req s =
     (case map_of (req_cookies req) ''token'' of
        None \<Rightarrow> (Inr (redirect ''login''), s)
      | Some token \<Rightarrow>
          if token = [] then (Inr (redirect ''login''), s)
          else (case jwt_decode lib token (SECRET_KEY cfg) (now e) of
                  Inl x \<Rightarrow> (Inr (redirect ''login''), s)
                | Inr data \<Rightarrow> (Inr (redirect ''dashboard''), s)))"

subsection \<open>The databases the service can reach\<close>

text \<open>
  The service starts on empty collections, and the database changes only through the
  routes, each with any request, at any time, with any fresh id and salt.
\<close>

inductive reachable :: "crypto \<Rightarrow> config \<Rightarrow> db \<Rightarrow> bool" for lib :: crypto and cfg :: config where
  start: "reachable lib cfg \<lparr>users = [], notes_coll = []\<rparr>"
| by_index: "reachable lib cfg s \<Longrightarrow> reachable lib cfg (snd (index lib cfg e req s))"
| by_register: "reachable lib cfg s \<Longrightarrow> reachable lib cfg (snd (register lib e req s))"
| by_login: "reachable lib cfg s \<Longrightarrow> reachable lib cfg (snd (login lib cfg e req s))"
| by_logout: "reachable lib cfg s \<Longrightarrow> reachable lib cfg (snd (logout s))"
| by_dashboard: "reachable lib cfg s \<Longrightarrow> reachable lib cfg (snd (route_dashboard lib cfg e req s))"
| by_notes: "reachable lib cfg s \<Longrightarrow> reachable lib cfg (snd (route_notes lib cfg e req s))"
| by_note_detail:
    "reachable lib cfg s \<Longrightarrow> reachable lib cfg (snd (route_note_detail lib cfg e req note_id s))"

subsection \<open>Concrete data\<close>

text \<open>
  An instance of the library parameters on which the model can be run. The hash is the
  salt, a dollar sign and the password; a token is the expiry in four bytes, the key
  and the user id. It behaves like the libraries on the inputs used below and protects
  nothing.
\<close>

definition demo_crypto :: crypto where
  "demo_crypto =
     \<lparr>generate_password_hash = (\<lambda>sl p. sl @ ''$'' @ p),
      check_password_hash = (\<lambda>h p. tl (dropWhile (\<lambda>c. c \<noteq> CHR ''$'') h) = p),
      jwt_encode = (\<lambda>c k.
        case (claim_user_id c, claim_exp c) of
          (Some u, Some x) \<Rightarrow>
            [char_of (x div 16777216), char_of (x div 65536), char_of (x div 256), char_of x] @ k @ u
        | _ \<Rightarrow> []),
      jwt_decode = (\<lambda>tok k t.
        if 4 \<le> length tok \<and> take (length k) (drop 4 tok) = k
        then (let x = of_char (tok ! 0) * 16777216 + of_char (tok ! 1) * 65536
                      + of_char (tok ! 2) * 256 + of_char (tok ! 3)
              in if x \<le> t then Inl ExpiredSignatureError
                 else Inr \<lparr>claim_user_id = Some (drop (4 + length k) tok), claim_exp = Some x\<rparr>)
        else Inl InvalidTokenError)\<rparr>"

definition demo_config :: config where
  "demo_config = \<lparr>SECRET_KEY = ''dev-key-only'', production = False\<rparr>"

definition alice_id :: oid where
  "alice_id = ''00000000000000000000000a''"

definition bob_id :: oid where
  "bob_id = ''00000000000000000000000b''"

definition note1_id :: oid where
  "note1_id = ''0000000000000000000000c1''"

definition note2_id :: oid where
  "note2_id = ''0000000000000000000000c2''"

definition alice :: user where
  "alice = \<lparr>u_id = alice_id, username = ''alice'', password = ''s1$secret1'', u_created_at = 0\<rparr>"

definition bob :: user where
  "bob = \<lparr>u_id = bob_id, username = ''bob'', password = ''s2$hunter22'', u_created_at = 1\<rparr>"

definition note1 :: note_doc where
  "note1 = \<lparr>n_id = note1_id, user_id = alice_id, title = JStr ''first'', content = JStr ''hi'',
            created_at = 10, updated_at = 10\<rparr>"

definition demo_db :: db where
  "demo_db = \<lparr>users = [alice, bob], notes_coll = [note1]\<rparr>"

definition demo_env :: env where
  "demo_env = \<lparr>now = 100, new_id = note2_id, salt = ''s3''\<rparr>"

text \<open>A request with a JSON body and no cookie, and a request that carries credentials.\<close>

definition json_request :: "http_method \<Rightarrow> json \<Rightarrow> request" where
  "json_request m v =
     \<lparr>req_method = m, req_cookies = [], is_json = True, get_json = v, req_form = [],
      arg_page = None, arg_per_page = None\<rparr>"

definition credentials :: "string \<Rightarrow> string \<Rightarrow> request" where
  "credentials name pw = json_request POST (JObj [(''username'', JStr name), (''password'', JStr pw)])"

text \<open>A collection of 101 notes of one user, with the ids 0 to 100.\<close>

definition digit_char :: "nat \<Rightarrow> char" where
  "digit_char n = ''0123456789'' ! (n mod 10)"

definition numbered_note :: "nat \<Rightarrow> note_doc" where
  "numbered_note i =
     \<lparr>n_id = ''000000000000000000000'' @ [digit_char (i div 100), digit_char (i div 10), digit_char i],
      user_id = alice_id, title = JStr [], content = JStr ''x'',
      created_at = int i, updated_at = int i\<rparr>"

definition many_notes :: "note_doc list" where
  "many_notes = map numbered_note [0..<101]"

definition demo_token :: string where
  "demo_token =
     jwt_encode demo_crypto \<lparr>claim_user_id = Some alice_id, claim_exp = Some 86500\<rparr> ''dev-key-only''"

subsection \<open>What the theorems assume of the libraries\<close>

text \<open>
  \<open>jwt_round_trip lib key c\<close>: the token made from the claims \<open>c\<close> under \<open>key\<close> is
  not empty, and decoding it under the same key gives the claims back until the
  expiry, and \<^verbatim>\<open>ExpiredSignatureError\<close> from the expiry on.
\<close>

definition jwt_round_trip :: "crypto \<Rightarrow> string \<Rightarrow> jwt_claims \<Rightarrow> bool" where
  "jwt_round_trip lib key c =
     (jwt_encode lib c key \<noteq> []
      \<and> (\<forall>t. jwt_decode lib (jwt_encode lib c key) key t =
             (case claim_exp c of
                None \<Rightarrow> Inr c
              | Some x \<Rightarrow> if x \<le> t then Inl ExpiredSignatureError else Inr c)))"

section \<open>Properties\<close>

subsection \<open>The collections\<close>

lemma find_one_None_iff: "find_one p xs = None \<longleftrightarrow> (\<forall>x\<in>set xs. \<not> p x)"
  by (auto simp: find_one_def find_None_iff)

lemma find_one_Some_D: "find_one p xs = Some x \<Longrightarrow> x \<in> set xs \<and> p x"
  by (auto simp: find_one_def find_Some_iff)

lemma update_one_keeps: "\<not> p n \<Longrightarrow> n \<in> set xs \<Longrightarrow> n \<in> set (update_one p f xs)"
  by (induction xs) auto

lemma delete_one_keeps: "\<not> p n \<Longrightarrow> n \<in> set xs \<Longrightarrow> n \<in> set (delete_one p xs)"
  by (induction xs) auto

lemma map_update_one: "(\<And>x. g (f x) = g x) \<Longrightarrow> map g (update_one p f xs) = map g xs"
  by (induction xs) auto

lemma set_delete_one: "set (delete_one p xs) \<subseteq> set xs"
  by (induction xs) auto

lemma distinct_delete_one: "distinct (map g xs) \<Longrightarrow> distinct (map g (delete_one p xs))"
proof (induction xs)
  case Nil
  then show ?case by simp
next
  case (Cons x xs)
  have "g ` set (delete_one p xs) \<subseteq> g ` set xs"
    using set_delete_one [of p xs] by blast
  with Cons show ?case by auto
qed

lemma n_id_set_fields: "n_id (set_fields t a b x) = n_id x"
  by (simp add: set_fields_def)

lemma distinct_same_id: "distinct (map g xs) \<Longrightarrow> x \<in> set xs \<Longrightarrow> y \<in> set xs \<Longrightarrow> g x = g y \<Longrightarrow> x = y"
  by (meson distinct_map inj_onD)

lemma set_find_notes: "find_notes owner k l ns = Inr rs \<Longrightarrow> set rs \<subseteq> {x \<in> set ns. user_id x = owner}"
proof -
  assume a: "find_notes owner k l ns = Inr rs"
  let ?ys = "sort_desc (filter (\<lambda>n. user_id n = owner) ns)"
  have s: "set ?ys = {x \<in> set ns. user_id x = owner}"
    by (simp add: sort_desc_def)
  from a have "set rs \<subseteq> set ?ys"
    by (auto simp: find_notes_def exn_bind_def cursor_skip_def cursor_limit_def
          split: sum.splits if_splits dest: in_set_takeD in_set_dropD)
  with s show ?thesis by simp
qed

lemma note_detail_state:
  assumes "distinct (map n_id (notes_coll s))"
  shows "distinct (map n_id (notes_coll (snd (note_detail e req nid uid s))))"
  using assms
  by (auto simp: note_detail_def map_update_one n_id_set_fields distinct_delete_one
        split: sum.splits option.splits)

lemma notes_view_state:
  assumes "distinct (map n_id (notes_coll s))"
  shows "distinct (map n_id (notes_coll (snd (notes_view e req uid s))))"
  using assms
  by (auto simp: notes_view_def notes_post_def notes_get_def except_500_def exn_bind_def insert_one_def
        split: sum.splits option.splits if_splits)

lemma note_detail_foreign:
  assumes d: "distinct (map n_id (notes_coll s))" and n: "n \<in> set (notes_coll s)"
    and b: "ObjectId uid_b = Inr b" and ne: "user_id n \<noteq> b"
  shows "n \<in> set (notes_coll (snd (note_detail e req nid uid_b s)))"
proof (cases "ObjectId nid")
  case (Inl x)
  then show ?thesis using n by (simp add: note_detail_def)
next
  case (Inr i)
  show ?thesis
  proof (cases "find_one (\<lambda>x. n_id x = i \<and> user_id x = b) (notes_coll s)")
    case None
    then show ?thesis using n Inr b by (simp add: note_detail_def)
  next
    case (Some found)
    then have f: "found \<in> set (notes_coll s)" "n_id found = i" "user_id found = b"
      using find_one_Some_D [OF Some] by auto
    have "n_id n \<noteq> i"
      using distinct_same_id [OF d n f(1)] f ne by auto
    then show ?thesis using n Inr b Some
      by (auto simp: note_detail_def update_one_keeps delete_one_keeps split: sum.splits)
  qed
qed

lemma notes_view_keeps:
  assumes n: "n \<in> set (notes_coll s)"
  shows "n \<in> set (notes_coll (snd (notes_view e req uid s)))"
  using assms
  by (auto simp: notes_view_def notes_post_def notes_get_def except_500_def exn_bind_def insert_one_def
        split: sum.splits option.splits if_splits)


lemma update_one_distinct:
  "distinct (map g xs) \<Longrightarrow> update_one (\<lambda>x. g x = i) f xs = map (\<lambda>x. if g x = i then f x else x) xs"
proof (induction xs)
  case Nil
  then show ?case by simp
next
  case (Cons x xs)
  show ?case
  proof (cases "g x = i")
    case True
    from Cons.prems have "g x \<notin> g ` set xs" by simp
    with True have "\<forall>y\<in>set xs. g y \<noteq> i" by blast
    then have "map (\<lambda>x. if g x = i then f x else x) xs = xs"
      by (simp add: map_idI)
    with True show ?thesis by simp
  next
    case False
    with Cons show ?thesis by simp
  qed
qed

subsection \<open>The ids of the notes stay pairwise different\<close>

lemma token_required_cases:
  "token_required lib cfg e req f s = (Inr (redirect ''login''), s)
   \<or> (\<exists>x. token_required lib cfg e req f s = (Inl x, s))
   \<or> (\<exists>uid. token_required lib cfg e req f s = f uid s)"
  by (auto simp: token_required_def split: option.splits sum.splits)

lemma register_notes: "notes_coll (snd (register lib e req s)) = notes_coll s"
  by (auto simp: register_def register_post_def except_500_def exn_bind_def
        split: sum.splits if_splits json.splits)

lemma login_notes: "notes_coll (snd (login lib cfg e req s)) = notes_coll s"
  by (auto simp: login_def login_post_def except_500_def exn_bind_def
        split: sum.splits if_splits json.splits option.splits)

lemma index_state: "snd (index lib cfg e req s) = s"
  by (simp add: index_def split: option.splits sum.splits)

lemma reachable_distinct:
  "reachable lib cfg s \<Longrightarrow> distinct (map n_id (notes_coll s))"
proof (induction rule: reachable.induct)
  case start
  show ?case by simp
next
  case (by_index s e req)
  then show ?case by (simp add: index_state)
next
  case (by_register s e req)
  then show ?case by (simp add: register_notes)
next
  case (by_login s e req)
  then show ?case by (simp add: login_notes)
next
  case (by_logout s)
  then show ?case by (simp add: logout_def)
next
  case (by_dashboard s e req)
  with token_required_cases [of lib cfg e req dashboard s] show ?case
    by (auto simp: route_dashboard_def dashboard_def)
next
  case (by_notes s e req)
  with token_required_cases [of lib cfg e req "notes_view e req" s]
    notes_view_state [of s e req] show ?case
    by (auto simp: route_notes_def)
next
  case (by_note_detail s e req note_id)
  with token_required_cases [of lib cfg e req "note_detail e req note_id" s]
    note_detail_state [of s e req note_id] show ?case
    by (auto simp: route_note_detail_def)
qed

subsection \<open>Stripping\<close>

lemma strip_all_space: "\<forall>c\<in>set s. isspace c \<Longrightarrow> strip s = []"
  by (auto simp: strip_def dest: set_dropWhileD)

lemma strip_edges: "strip s = [] \<or> (\<not> isspace (hd (strip s)) \<and> \<not> isspace (last (strip s)))"
proof (cases "strip s = []")
  case True
  then show ?thesis by simp
next
  case False
  let ?zs = "dropWhile isspace s"
  let ?ys = "dropWhile isspace (rev ?zs)"
  from False have ys: "?ys \<noteq> []" by (simp add: strip_def)
  have zs: "?zs \<noteq> []"
  proof
    assume "?zs = []"
    then have "?ys = []" by (simp only: rev.simps dropWhile.simps)
    with ys show False ..
  qed
  have "last (strip s) = hd ?ys"
    using ys by (simp add: strip_def last_rev)
  moreover have "\<not> isspace (hd ?ys)"
    using ys by (rule hd_dropWhile)
  moreover have "hd (strip s) = last ?ys"
    using ys by (simp add: strip_def hd_rev)
  moreover have "last ?ys = last (rev ?zs)"
  proof -
    have "rev ?zs = takeWhile isspace (rev ?zs) @ ?ys" by simp
    then have "last (rev ?zs) = last (takeWhile isspace (rev ?zs) @ ?ys)" by simp
    also have "\<dots> = last ?ys" using ys by (rule last_appendR)
    finally show ?thesis by simp
  qed
  moreover have "last (rev ?zs) = hd ?zs"
    using zs by (simp add: last_rev)
  moreover have "\<not> isspace (hd ?zs)"
    using zs by (rule hd_dropWhile)
  ultimately show ?thesis by simp
qed

lemma strip_fixed: "s = [] \<or> (\<not> isspace (hd s) \<and> \<not> isspace (last s)) \<Longrightarrow> strip s = s"
proof (cases s)
  case Nil
  then show ?thesis by (simp add: strip_def)
next
  case (Cons a as)
  assume "s = [] \<or> (\<not> isspace (hd s) \<and> \<not> isspace (last s))"
  with Cons have h: "\<not> isspace (hd s)" and l: "\<not> isspace (last s)" by auto
  from h Cons have a: "dropWhile isspace s = s" by simp
  have "rev s \<noteq> []" using Cons by simp
  moreover have "hd (rev s) = last s" using Cons by (simp add: hd_rev)
  ultimately have "dropWhile isspace (rev s) = rev s"
    using l by (simp add: dropWhile_eq_self_iff)
  with a show ?thesis by (simp add: strip_def)
qed

lemma strip_strip: "strip (strip s) = strip s"
  using strip_edges [of s] by (rule strip_fixed)

subsection \<open>A successful login\<close>


lemma login_ok_D:
  assumes post: "req_method req = POST"
    and ok: "login lib cfg e req s = (Inr resp, s')"
    and st: "status resp = 200"
  shows "\<exists>u name pw. u \<in> set (users s)
        \<and> find_one (\<lambda>u. username u = strip name) (users s) = Some u
        \<and> dict_get (request_data req) ''username'' (JStr []) = Inr (JStr name)
        \<and> dict_get (request_data req) ''password'' (JStr []) = Inr (JStr pw)
        \<and> username u = strip name \<and> check_password_hash lib (password u) pw
        \<and> s' = s
        \<and> resp = (json_message ''Login successful'' 200)
             \<lparr>set_cookie := Some (session_cookie cfg
                (jwt_encode lib
                   \<lparr>claim_user_id = Some (str_oid (u_id u)),
                    claim_exp = Some (now e + JWT_EXPIRATION_DELTA)\<rparr> (SECRET_KEY cfg)))\<rparr>"
proof -
  from ok post have p: "except_500 ''Login failed'' (login_post lib cfg e req s) s = (Inr resp, s')"
    by (simp add: login_def)
  from p st have r: "login_post lib cfg e req s = Inr (resp, s')"
    by (cases "login_post lib cfg e req s") (auto simp: except_500_def json_error_def jsonify_def)
  from r obtain uv where uv: "dict_get (request_data req) ''username'' (JStr []) = Inr uv"
    by (cases "dict_get (request_data req) ''username'' (JStr [])") (auto simp: login_post_def exn_bind_def)
  from r uv obtain name where name: "uv = JStr name"
    by (cases uv) (auto simp: login_post_def exn_bind_def)
  from r uv name obtain pv where pv: "dict_get (request_data req) ''password'' (JStr []) = Inr pv"
    by (cases "dict_get (request_data req) ''password'' (JStr [])") (auto simp: login_post_def exn_bind_def)
  from r st uv name pv have ne: "strip name \<noteq> []" "truthy pv"
    by (auto simp: login_post_def exn_bind_def json_error_def jsonify_def split: if_splits)
  from r st uv name pv ne obtain u where
    u: "find_one (\<lambda>u. username u = strip name) (users s) = Some u"
    by (cases "find_one (\<lambda>u. username u = strip name) (users s)")
       (auto simp: login_post_def exn_bind_def json_error_def jsonify_def)
  from r uv name pv ne u obtain pw where pw: "pv = JStr pw"
    by (cases pv) (auto simp: login_post_def exn_bind_def)
  from r st uv name pv ne u pw have c: "check_password_hash lib (password u) pw"
    by (auto simp: login_post_def exn_bind_def json_error_def jsonify_def split: if_splits)
  from r uv name pv ne u pw c have
    "s' = s \<and> resp = (json_message ''Login successful'' 200)
             \<lparr>set_cookie := Some (session_cookie cfg
                (jwt_encode lib
                   \<lparr>claim_user_id = Some (str_oid (u_id u)),
                    claim_exp = Some (now e + JWT_EXPIRATION_DELTA)\<rparr> (SECRET_KEY cfg)))\<rparr>"
    by (auto simp: login_post_def exn_bind_def)
  with uv name pv pw c u find_one_Some_D [OF u] show ?thesis by auto
qed

lemma find_one_append: "find_one p xs = Some x \<Longrightarrow> find_one p (xs @ ys) = Some x"
  by (induction xs) (auto simp: find_one_def)

lemma find_one_snoc: "find_one p xs = None \<Longrightarrow> p y \<Longrightarrow> find_one p (xs @ [y]) = Some y"
  by (induction xs) (auto simp: find_one_def split: if_splits)

lemma login_post_string_credentials:
  assumes "dict_get (request_data req) ''username'' (JStr []) = Inr (JStr name)"
    and "dict_get (request_data req) ''password'' (JStr []) = Inr (JStr pw)"
  shows "login_post lib cfg e req s =
     (if strip name = [] \<or> pw = [] then Inr (json_error ''Username and password required'' 400, s)
      else (case find_one (\<lambda>u. username u = strip name) (users s) of
              None \<Rightarrow> Inr (json_error ''Invalid credentials'' 401, s)
            | Some u \<Rightarrow>
                if check_password_hash lib (password u) pw
                then Inr ((json_message ''Login successful'' 200)
                            \<lparr>set_cookie := Some (session_cookie cfg
                               (jwt_encode lib
                                  \<lparr>claim_user_id = Some (str_oid (u_id u)),
                                   claim_exp = Some (now e + JWT_EXPIRATION_DELTA)\<rparr>
                                  (SECRET_KEY cfg)))\<rparr>, s)
                else Inr (json_error ''Invalid credentials'' 401, s)))"
  using assms by (simp add: login_post_def exn_bind_def split: option.splits)

lemma register_created_D:
  assumes post: "req_method req = POST"
    and u: "dict_get (request_data req) ''username'' (JStr []) = Inr (JStr name)"
    and p: "dict_get (request_data req) ''password'' (JStr []) = Inr (JStr pw)"
    and reg: "register lib e req s = (Inr resp, s')"
    and st: "status resp = 201"
  shows "strip name \<noteq> [] \<and> 3 \<le> length (strip name) \<and> length (strip name) \<le> 50 \<and> 6 \<le> length pw
       \<and> find_one (\<lambda>u. username u = strip name) (users s) = None
       \<and> new_id e \<notin> u_id ` set (users s)
       \<and> s' = s\<lparr>users := users s @
            [\<lparr>u_id = new_id e, username = strip name,
              password = generate_password_hash lib (salt e) pw, u_created_at = now e\<rparr>]\<rparr>
       \<and> resp = json_message ''User created successfully'' 201"
proof -
  from reg post have "except_500 ''Registration failed'' (register_post lib e req s) s = (Inr resp, s')"
    by (simp add: register_def)
  with st have r: "register_post lib e req s = Inr (resp, s')"
    by (cases "register_post lib e req s") (auto simp: except_500_def json_error_def jsonify_def)
  from r st u p have a: "strip name \<noteq> []" "pw \<noteq> []"
    by (auto simp: register_post_def exn_bind_def json_error_def jsonify_def split: if_splits)
  from r st u p a have b: "3 \<le> length (strip name)" "length (strip name) \<le> 50"
    by (auto simp: register_post_def exn_bind_def json_error_def jsonify_def split: if_splits)
  from r st u p a b have c: "6 \<le> length pw"
    by (auto simp: register_post_def exn_bind_def json_error_def jsonify_def split: if_splits)
  from r st u p a b c have d: "find_one (\<lambda>u. username u = strip name) (users s) = None"
    by (auto simp: register_post_def exn_bind_def json_error_def jsonify_def split: if_splits)
  from r u p a b c d have
    "new_id e \<notin> u_id ` set (users s)
       \<and> s' = s\<lparr>users := users s @
            [\<lparr>u_id = new_id e, username = strip name,
              password = generate_password_hash lib (salt e) pw, u_created_at = now e\<rparr>]\<rparr>
       \<and> resp = json_message ''User created successfully'' 201"
    by (auto simp: register_post_def exn_bind_def insert_one_def split: if_splits)
  with a b c d show ?thesis by simp
qed

subsection \<open>The listing\<close>

lemma sort_desc_sorted: "sorted_wrt (\<lambda>x y. updated_at y \<le> updated_at x) (sort_desc xs)"
proof -
  have "sorted (map (\<lambda>n. - updated_at n) (sort_desc xs))"
    by (simp add: sort_desc_def)
  then show ?thesis
    by (simp add: sorted_map)
qed

lemma sort_desc_mset: "mset (sort_desc xs) = mset xs"
  by (simp add: sort_desc_def)

text \<open>
  Within the bounds, that is for a page of at least 1 and a \<^verbatim>\<open>per_page\<close> of at least
  1, the listing is the page of the sorted notes of the owner, and a \<^verbatim>\<open>per_page\<close>
  above 100 is served as 100.
\<close>

lemma listing_in_range:
  assumes get: "req_method req = GET"
    and owner: "ObjectId uid = Inr owner"
    and page: "1 \<le> req_page req"
    and per: "1 \<le> (case arg_per_page req of None \<Rightarrow> 20 | Some p \<Rightarrow> p)"
    and fits: "(req_page req - 1) * req_per_page req \<le> int64_max"
  shows "req_per_page req = min (case arg_per_page req of None \<Rightarrow> 20 | Some p \<Rightarrow> p) 100
       \<and> 1 \<le> req_per_page req \<and> req_per_page req \<le> 100
       \<and> notes_view e req uid s =
           (Inr (jsonify (JArr (map note_json
              (take (nat (req_per_page req))
                 (drop (nat ((req_page req - 1) * req_per_page req))
                    (sort_desc (filter (\<lambda>n. user_id n = owner) (notes_coll s))))))) 200), s)
       \<and> sorted_wrt (\<lambda>x y. updated_at y \<le> updated_at x)
            (sort_desc (filter (\<lambda>n. user_id n = owner) (notes_coll s)))
       \<and> mset (sort_desc (filter (\<lambda>n. user_id n = owner) (notes_coll s)))
            = mset (filter (\<lambda>n. user_id n = owner) (notes_coll s))
       \<and> (\<forall>p. arg_per_page req = Some p \<and> 100 < p \<longrightarrow>
             notes_view e req uid s = notes_view e (req\<lparr>arg_per_page := Some 100\<rparr>) uid s)"
proof -
  have a: "req_per_page req = min (case arg_per_page req of None \<Rightarrow> 20 | Some p \<Rightarrow> p) 100"
    by (simp add: req_per_page_def)
  have b: "1 \<le> req_per_page req" "req_per_page req \<le> 100"
    using per by (simp_all add: req_per_page_def)
  have nonneg: "0 \<le> (req_page req - 1) * req_per_page req"
    using page b by simp
  have small: "\<bar>req_per_page req\<bar> \<le> int64_max"
    using b by (simp add: int64_max_def)
  have "find_notes owner ((req_page req - 1) * req_per_page req) (req_per_page req) (notes_coll s)
          = Inr (take (nat (req_per_page req))
                 (drop (nat ((req_page req - 1) * req_per_page req))
                    (sort_desc (filter (\<lambda>n. user_id n = owner) (notes_coll s)))))"
    using nonneg fits small b
    by (simp add: find_notes_def cursor_skip_def cursor_limit_def exn_bind_def)
  then have c: "notes_view e req uid s =
           (Inr (jsonify (JArr (map note_json
              (take (nat (req_per_page req))
                 (drop (nat ((req_page req - 1) * req_per_page req))
                    (sort_desc (filter (\<lambda>n. user_id n = owner) (notes_coll s))))))) 200), s)"
    using get owner by (simp add: notes_view_def notes_get_def except_500_def exn_bind_def)
  have d: "notes_view e req uid s = notes_view e (req\<lparr>arg_per_page := Some 100\<rparr>) uid s"
    if "arg_per_page req = Some p" "100 < p" for p
    using that get
    by (simp add: notes_view_def notes_get_def req_per_page_def req_page_def)
  show ?thesis
    using a b c d sort_desc_sorted sort_desc_mset by blast
qed

subsection \<open>Handlers under try\<close>

text \<open>
  The bodies of \<^verbatim>\<open>notes\<close>, \<^verbatim>\<open>login\<close> and \<^verbatim>\<open>register\<close> are under
  \<^verbatim>\<open>try ... except Exception\<close>: no exception leaves them.
\<close>

lemma notes_view_never_raises: "\<exists>r s'. notes_view e req uid s = (Inr r, s')"
  by (auto simp: notes_view_def except_500_def split: sum.splits)

lemma login_never_raises: "\<exists>r s'. login lib cfg e req s = (Inr r, s')"
  by (auto simp: login_def except_500_def split: sum.splits)

lemma register_never_raises: "\<exists>r s'. register lib e req s = (Inr r, s')"
  by (auto simp: register_def except_500_def split: sum.splits)

subsection \<open>The concrete data\<close>

lemma demo_round_trip:
  "jwt_round_trip demo_crypto (SECRET_KEY demo_config)
     \<lparr>claim_user_id = Some uid, claim_exp = Some (now demo_env + JWT_EXPIRATION_DELTA)\<rparr>"
  by (simp add: jwt_round_trip_def demo_crypto_def demo_config_def demo_env_def JWT_EXPIRATION_DELTA_def)

lemma ObjectId_demo:
  "ObjectId alice_id = Inr alice_id" "ObjectId bob_id = Inr bob_id"
  "ObjectId note1_id = Inr note1_id" "ObjectId note2_id = Inr note2_id"
  by (simp_all add: ObjectId_def ishex_def hexlower_def alice_id_def bob_id_def note1_id_def note2_id_def)

lemma demo_ids_distinct:
  "alice_id \<noteq> bob_id" "note1_id \<noteq> note2_id"
  by (simp_all add: alice_id_def bob_id_def note1_id_def note2_id_def)

lemma demo_login:
  "login demo_crypto demo_config demo_env (credentials ''alice'' ''secret1'') demo_db
     = (Inr ((json_message ''Login successful'' 200)
               \<lparr>set_cookie := Some (session_cookie demo_config demo_token)\<rparr>), demo_db)"
  by (simp add: login_def login_post_def except_500_def exn_bind_def credentials_def json_request_def
        request_data_def strip_def isspace_def find_one_def demo_db_def alice_def bob_def
        demo_crypto_def demo_token_def demo_config_def demo_env_def str_oid_def
        JWT_EXPIRATION_DELTA_def)

lemma credentials_data:
  "req_method (credentials name pw) = POST"
  "dict_get (request_data (credentials name pw)) ''username'' (JStr []) = Inr (JStr name)"
  "dict_get (request_data (credentials name pw)) ''password'' (JStr []) = Inr (JStr pw)"
  by (simp_all add: credentials_def json_request_def request_data_def)

lemma demo_find_alice: "find_one (\<lambda>u. username u = ''alice'') (users demo_db) = Some alice"
  by (simp add: find_one_def demo_db_def alice_def)

lemma strip_demo:
  "strip ''alice'' = ''alice''" "strip ''nosuchuser'' = ''nosuchuser''" "strip '' carol '' = ''carol''"
  by (simp_all add: strip_def isspace_def)

lemma demo_register:
  "register demo_crypto demo_env (credentials '' carol '' ''secret3'') demo_db
     = (Inr (json_message ''User created successfully'' 201),
        demo_db\<lparr>users := [alice, bob,
           \<lparr>u_id = note2_id, username = ''carol'', password = ''s3$secret3'', u_created_at = 100\<rparr>]\<rparr>)"
  by (simp add: register_def register_post_def except_500_def exn_bind_def credentials_data
        strip_demo find_one_def insert_one_def demo_db_def alice_def bob_def demo_env_def
        demo_crypto_def alice_id_def bob_id_def note2_id_def)

section \<open>The claims\<close>

text \<open>
  C1. Let the note \<open>n\<close> be stored, and let the session of the request resolve to a
  user \<open>b\<close> who is not the owner of \<open>n\<close>. The listing of \<open>b\<close> is either the 500
  answer of the handler or a list of notes of \<open>b\<close> that holds neither \<open>n\<close> nor a
  note with the id of \<open>n\<close>. On the id of \<open>n\<close>, \<^verbatim>\<open>note_detail\<close> answers 404 and
  leaves the database as it is, whatever the method and the body, and the answer is
  the one given for an id that no note has. After any request of \<open>b\<close> to either
  handler, on any note id, \<open>n\<close> is still stored unchanged. The ids of the notes are
  pairwise different, as the unique index on \<^verbatim>\<open>_id\<close> keeps them
  in every database the service can reach (\<open>reachable_distinct\<close>).
\<close>

theorem foreign_note_invisible:
  assumes d: "distinct (map n_id (notes_coll s))"
    and n: "n \<in> set (notes_coll s)"
    and b: "ObjectId uid_b = Inr b"
    and ne: "user_id n \<noteq> b"
    and i: "ObjectId note_id = Inr (n_id n)"
    and m: "ObjectId missing_id = Inr m" "m \<notin> n_id ` set (notes_coll s)"
  shows "(req_method req = GET \<longrightarrow>
           notes_view e req uid_b s = (Inr (json_error ''Operation failed'' 500), s)
           \<or> (\<exists>ns. notes_view e req uid_b s = (Inr (jsonify (JArr (map note_json ns)) 200), s)
                 \<and> set ns \<subseteq> {x \<in> set (notes_coll s). user_id x = b}
                 \<and> n \<notin> set ns \<and> n_id n \<notin> n_id ` set ns))
       \<and> note_detail e req note_id uid_b s = (Inr (json_error ''Note not found'' 404), s)
       \<and> note_detail e req note_id uid_b s = note_detail e req missing_id uid_b s
       \<and> n \<in> set (notes_coll (snd (note_detail e req any_id uid_b s)))
       \<and> n \<in> set (notes_coll (snd (notes_view e req uid_b s)))"
proof -
  have g: "notes_view e req uid_b s = (Inr (json_error ''Operation failed'' 500), s)
           \<or> (\<exists>ns. notes_view e req uid_b s = (Inr (jsonify (JArr (map note_json ns)) 200), s)
                 \<and> set ns \<subseteq> {x \<in> set (notes_coll s). user_id x = b}
                 \<and> n \<notin> set ns \<and> n_id n \<notin> n_id ` set ns)"
    if get: "req_method req = GET"
  proof (cases "find_notes b ((req_page req - 1) * req_per_page req) (req_per_page req) (notes_coll s)")
    case (Inl x)
    then show ?thesis using get b
      by (simp add: notes_view_def notes_get_def except_500_def exn_bind_def)
  next
    case (Inr ns)
    have sub: "set ns \<subseteq> {x \<in> set (notes_coll s). user_id x = b}"
      by (rule set_find_notes [OF Inr])
    have "n_id n \<notin> n_id ` set ns"
    proof
      assume "n_id n \<in> n_id ` set ns"
      then obtain x where x: "x \<in> set ns" "n_id x = n_id n" by auto
      with sub have "x \<in> set (notes_coll s)" "user_id x = b" by auto
      with distinct_same_id [OF d n this(1)] x ne show False by auto
    qed
    moreover have "n \<notin> set ns" using sub ne by auto
    moreover have "notes_view e req uid_b s = (Inr (jsonify (JArr (map note_json ns)) 200), s)"
      using get b Inr by (simp add: notes_view_def notes_get_def except_500_def exn_bind_def)
    ultimately show ?thesis using sub by blast
  qed
  have none: "find_one (\<lambda>x. n_id x = n_id n \<and> user_id x = b) (notes_coll s) = None"
    unfolding find_one_None_iff
  proof
    fix x assume x: "x \<in> set (notes_coll s)"
    show "\<not> (n_id x = n_id n \<and> user_id x = b)"
      using distinct_same_id [OF d n x] ne by auto
  qed
  have p: "note_detail e req note_id uid_b s = (Inr (json_error ''Note not found'' 404), s)"
    using i b none by (simp add: note_detail_def)
  have "find_one (\<lambda>x. n_id x = m \<and> user_id x = b) (notes_coll s) = None"
    unfolding find_one_None_iff using m(2) by auto
  then have q: "note_detail e req missing_id uid_b s = (Inr (json_error ''Note not found'' 404), s)"
    using m(1) b by (simp add: note_detail_def)
  show ?thesis
    using g p q note_detail_foreign [OF d n b ne] notes_view_keeps [OF n] by simp
qed

theorem foreign_note_invisible_witness:
  "note_detail demo_env (json_request PUT (JObj [(''content'', JStr ''x'')])) note1_id bob_id demo_db
     = (Inr (json_error ''Note not found'' 404), demo_db)
   \<and> note_detail demo_env (json_request PUT (JObj [(''content'', JStr ''x'')])) note1_id bob_id demo_db
     = note_detail demo_env (json_request PUT (JObj [(''content'', JStr ''x'')])) note2_id bob_id demo_db
   \<and> note1 \<in> set (notes_coll (snd (note_detail demo_env (json_request PUT (JObj [(''content'', JStr ''x'')]))
        note1_id bob_id demo_db)))"
proof -
  have d: "distinct (map n_id (notes_coll demo_db))" by (simp add: demo_db_def)
  have n: "note1 \<in> set (notes_coll demo_db)" by (simp add: demo_db_def)
  have ne: "user_id note1 \<noteq> bob_id" using demo_ids_distinct by (simp add: note1_def)
  have i: "ObjectId note1_id = Inr (n_id note1)" by (simp add: ObjectId_demo note1_def)
  have m: "note2_id \<notin> n_id ` set (notes_coll demo_db)"
    using demo_ids_distinct by (simp add: demo_db_def note1_def)
  show ?thesis
    using foreign_note_invisible [OF d n ObjectId_demo(2) ne i ObjectId_demo(4) m,
        where req = "json_request PUT (JObj [(''content'', JStr ''x'')])" and e = demo_env
          and any_id = note1_id]
    by blast
qed

text \<open>
  C2. \<^verbatim>\<open>token_required\<close>: without a token cookie, or with an empty one, and when
  decoding raises \<^verbatim>\<open>ExpiredSignatureError\<close> or \<^verbatim>\<open>InvalidTokenError\<close>, the answer is
  the redirect to the login page and the database is untouched, whatever the wrapped
  handler is: it is not run. When decoding succeeds and the claims hold a user id, the
  result is that of the wrapped handler on this user id. The three guarded routes are
  the handlers under this wrapper, and the handlers do not read the cookies of the
  request, so the token reaches them in no way.
\<close>

theorem token_required_guard:
  "(map_of (req_cookies req) ''token'' = None \<or> map_of (req_cookies req) ''token'' = Some []
      \<longrightarrow> token_required lib cfg e req f s = (Inr (redirect ''login''), s))
   \<and> (\<forall>tok x. map_of (req_cookies req) ''token'' = Some tok \<and> tok \<noteq> []
         \<and> jwt_decode lib tok (SECRET_KEY cfg) (now e) = Inl x
         \<and> (x = ExpiredSignatureError \<or> x = InvalidTokenError)
      \<longrightarrow> token_required lib cfg e req f s = (Inr (redirect ''login''), s))
   \<and> (\<forall>tok c uid. map_of (req_cookies req) ''token'' = Some tok \<and> tok \<noteq> []
         \<and> jwt_decode lib tok (SECRET_KEY cfg) (now e) = Inr c \<and> claim_user_id c = Some uid
      \<longrightarrow> token_required lib cfg e req f s = f uid s)
   \<and> route_dashboard lib cfg e req = token_required lib cfg e req dashboard
   \<and> route_notes lib cfg e req = token_required lib cfg e req (notes_view e req)
   \<and> route_note_detail lib cfg e req note_id = token_required lib cfg e req (note_detail e req note_id)
   \<and> notes_view e (req\<lparr>req_cookies := cs\<rparr>) = notes_view e req
   \<and> note_detail e (req\<lparr>req_cookies := cs\<rparr>) note_id = note_detail e req note_id"
proof -
  have a: "notes_view e (req\<lparr>req_cookies := cs\<rparr>) = notes_view e req"
    by (simp add: notes_view_def notes_post_def notes_get_def req_page_def req_per_page_def fun_eq_iff)
  have b: "note_detail e (req\<lparr>req_cookies := cs\<rparr>) note_id = note_detail e req note_id"
    by (simp add: note_detail_def fun_eq_iff split: sum.splits option.splits)
  show ?thesis
    by (auto simp: a b token_required_def route_dashboard_def route_notes_def route_note_detail_def)
qed

theorem token_required_guard_witness:
  "token_required demo_crypto demo_config demo_env (json_request GET JNull) dashboard demo_db
     = (Inr (redirect ''login''), demo_db)
   \<and> token_required demo_crypto demo_config (demo_env\<lparr>now := 86500\<rparr>)
       ((json_request GET JNull)\<lparr>req_cookies := [(''token'', demo_token)]\<rparr>) dashboard demo_db
     = (Inr (redirect ''login''), demo_db)
   \<and> token_required demo_crypto demo_config demo_env
       ((json_request GET JNull)\<lparr>req_cookies := [(''token'', demo_token)]\<rparr>) dashboard demo_db
     = dashboard alice_id demo_db"
proof -
  have t: "demo_token \<noteq> []"
    by (simp add: demo_token_def demo_crypto_def)
  have x: "jwt_decode demo_crypto demo_token (SECRET_KEY demo_config) (now (demo_env\<lparr>now := 86500\<rparr>))
             = Inl ExpiredSignatureError"
    by (simp add: demo_token_def demo_crypto_def demo_config_def)
  have v: "jwt_decode demo_crypto demo_token (SECRET_KEY demo_config) (now demo_env)
             = Inr \<lparr>claim_user_id = Some alice_id, claim_exp = Some 86500\<rparr>"
    by (simp add: demo_token_def demo_crypto_def demo_config_def demo_env_def)
  have a: "token_required demo_crypto demo_config demo_env (json_request GET JNull) dashboard demo_db
     = (Inr (redirect ''login''), demo_db)"
    using token_required_guard [of "json_request GET JNull" demo_crypto demo_config demo_env dashboard demo_db]
    by (simp add: json_request_def)
  have b: "token_required demo_crypto demo_config (demo_env\<lparr>now := 86500\<rparr>)
       ((json_request GET JNull)\<lparr>req_cookies := [(''token'', demo_token)]\<rparr>) dashboard demo_db
     = (Inr (redirect ''login''), demo_db)"
    using t x token_required_guard [of "(json_request GET JNull)\<lparr>req_cookies := [(''token'', demo_token)]\<rparr>"
        demo_crypto demo_config "demo_env\<lparr>now := 86500\<rparr>" dashboard demo_db]
    by (simp add: json_request_def)
  have c: "token_required demo_crypto demo_config demo_env
       ((json_request GET JNull)\<lparr>req_cookies := [(''token'', demo_token)]\<rparr>) dashboard demo_db
     = dashboard alice_id demo_db"
    using t v token_required_guard [of "(json_request GET JNull)\<lparr>req_cookies := [(''token'', demo_token)]\<rparr>"
        demo_crypto demo_config demo_env dashboard demo_db]
    by (simp add: json_request_def)
  show ?thesis using a b c by simp
qed

text \<open>
  C3. A login that answers 200 at the time \<open>now e\<close> carried a user name and a
  password as strings, and \<open>u\<close>, the user stored under the stripped name, has a hash
  that accepts the password. The cookie it sets is the token of the claims
  \<^verbatim>\<open>user_id\<close> = the printed id of this user \<open>u\<close> and \<^verbatim>\<open>exp\<close> = \<open>now e\<close> + 24
  hours, under the configured secret. Where the library decodes what it encoded
  (\<^const>\<open>jwt_round_trip\<close>), a guarded request that carries this token runs the
  wrapped handler with the id of \<open>u\<close> at every time strictly before \<open>now e\<close> + 24
  hours, and is redirected to the login page at that instant and at every later time.
\<close>

theorem token_valid_until_expiry:
  assumes post: "req_method req = POST"
    and ok: "login lib cfg e req s = (Inr resp, s')"
    and st: "status resp = 200"
    and rt: "\<forall>uid. jwt_round_trip lib (SECRET_KEY cfg)
               \<lparr>claim_user_id = Some uid, claim_exp = Some (now e + JWT_EXPIRATION_DELTA)\<rparr>"
  shows "\<exists>u name pw tok.
           dict_get (request_data req) ''username'' (JStr []) = Inr (JStr name)
         \<and> dict_get (request_data req) ''password'' (JStr []) = Inr (JStr pw)
         \<and> find_one (\<lambda>x. username x = strip name) (users s) = Some u
         \<and> u \<in> set (users s) \<and> username u = strip name
         \<and> check_password_hash lib (password u) pw
         \<and> tok = jwt_encode lib \<lparr>claim_user_id = Some (str_oid (u_id u)),
                                 claim_exp = Some (now e + 24 * 3600)\<rparr> (SECRET_KEY cfg)
         \<and> set_cookie resp = Some (session_cookie cfg tok)
         \<and> (\<forall>e' req' f s1. map_of (req_cookies req') ''token'' = Some tok \<longrightarrow>
               token_required lib cfg e' req' f s1 =
                 (if now e' < now e + 24 * 3600 then f (str_oid (u_id u)) s1
                  else (Inr (redirect ''login''), s1)))"
proof -
  from login_ok_D [OF post ok st] obtain u name pw where
    u: "u \<in> set (users s)"
    and fu: "find_one (\<lambda>x. username x = strip name) (users s) = Some u"
    and nm: "dict_get (request_data req) ''username'' (JStr []) = Inr (JStr name)"
    and pw: "dict_get (request_data req) ''password'' (JStr []) = Inr (JStr pw)"
    and un: "username u = strip name"
    and chk: "check_password_hash lib (password u) pw"
    and resp: "resp = (json_message ''Login successful'' 200)
             \<lparr>set_cookie := Some (session_cookie cfg
                (jwt_encode lib
                   \<lparr>claim_user_id = Some (str_oid (u_id u)),
                    claim_exp = Some (now e + JWT_EXPIRATION_DELTA)\<rparr> (SECRET_KEY cfg)))\<rparr>"
    by blast
  let ?c = "\<lparr>claim_user_id = Some (str_oid (u_id u)), claim_exp = Some (now e + JWT_EXPIRATION_DELTA)\<rparr>"
  let ?tok = "jwt_encode lib ?c (SECRET_KEY cfg)"
  from rt have r: "jwt_round_trip lib (SECRET_KEY cfg) ?c" by blast
  then have ne: "?tok \<noteq> []"
    and dec: "\<And>t. jwt_decode lib ?tok (SECRET_KEY cfg) t =
                (if now e + JWT_EXPIRATION_DELTA \<le> t then Inl ExpiredSignatureError else Inr ?c)"
    by (simp_all add: jwt_round_trip_def)
  have tr: "token_required lib cfg e' req' f s1 =
          (if now e' < now e + 24 * 3600 then f (str_oid (u_id u)) s1
           else (Inr (redirect ''login''), s1))"
    if "map_of (req_cookies req') ''token'' = Some ?tok" for e' req' f s1
    using that ne dec by (simp add: token_required_def JWT_EXPIRATION_DELTA_def)
  have c: "set_cookie resp = Some (session_cookie cfg ?tok)"
    using resp by simp
  have "dict_get (request_data req) ''username'' (JStr []) = Inr (JStr name)
         \<and> dict_get (request_data req) ''password'' (JStr []) = Inr (JStr pw)
         \<and> find_one (\<lambda>x. username x = strip name) (users s) = Some u
         \<and> u \<in> set (users s) \<and> username u = strip name
         \<and> check_password_hash lib (password u) pw
         \<and> ?tok = jwt_encode lib \<lparr>claim_user_id = Some (str_oid (u_id u)),
                                 claim_exp = Some (now e + 24 * 3600)\<rparr> (SECRET_KEY cfg)
         \<and> set_cookie resp = Some (session_cookie cfg ?tok)
         \<and> (\<forall>e' req' f s1. map_of (req_cookies req') ''token'' = Some ?tok \<longrightarrow>
               token_required lib cfg e' req' f s1 =
                 (if now e' < now e + 24 * 3600 then f (str_oid (u_id u)) s1
                  else (Inr (redirect ''login''), s1)))"
    using u fu nm pw un chk c tr by (simp add: JWT_EXPIRATION_DELTA_def)
  then show ?thesis by blast
qed

theorem token_valid_until_expiry_witness:
  "token_required demo_crypto demo_config (demo_env\<lparr>now := 86499\<rparr>)
       ((json_request GET JNull)\<lparr>req_cookies := [(''token'', demo_token)]\<rparr>)
       (note_detail demo_env (json_request DELETE JNull) note1_id) demo_db
     = note_detail demo_env (json_request DELETE JNull) note1_id alice_id demo_db
   \<and> token_required demo_crypto demo_config (demo_env\<lparr>now := 86500\<rparr>)
       ((json_request GET JNull)\<lparr>req_cookies := [(''token'', demo_token)]\<rparr>)
       (note_detail demo_env (json_request DELETE JNull) note1_id) demo_db
     = (Inr (redirect ''login''), demo_db)"
proof -
  let ?resp = "(json_message ''Login successful'' 200)
               \<lparr>set_cookie := Some (session_cookie demo_config demo_token)\<rparr>"
  let ?req = "(json_request GET JNull)\<lparr>req_cookies := [(''token'', demo_token)]\<rparr>"
  let ?f = "note_detail demo_env (json_request DELETE JNull) note1_id"
  have st: "status ?resp = 200"
    by (simp add: json_message_def jsonify_def)
  have rt: "\<forall>uid. jwt_round_trip demo_crypto (SECRET_KEY demo_config)
               \<lparr>claim_user_id = Some uid, claim_exp = Some (now demo_env + JWT_EXPIRATION_DELTA)\<rparr>"
    using demo_round_trip by blast
  from token_valid_until_expiry [OF credentials_data(1) demo_login st rt]
  obtain u :: user and name tok where
    nm: "dict_get (request_data (credentials ''alice'' ''secret1'')) ''username'' (JStr []) = Inr (JStr name)"
    and fu: "find_one (\<lambda>x. username x = strip name) (users demo_db) = Some u"
    and c: "set_cookie ?resp = Some (session_cookie demo_config tok)"
    and v: "\<And>e' req' f s1. map_of (req_cookies req') ''token'' = Some tok \<Longrightarrow>
               token_required demo_crypto demo_config e' req' f s1 =
                 (if now e' < now demo_env + 24 * 3600 then f (str_oid (u_id u)) s1
                  else (Inr (redirect ''login''), s1))"
    by blast
  from nm have "name = ''alice''"
    by (simp add: credentials_data(2))
  with fu have "u = alice"
    by (simp add: strip_demo demo_find_alice)
  then have uid: "str_oid (u_id u) = alice_id"
    by (simp add: str_oid_def alice_def)
  from c have "session_cookie demo_config tok = session_cookie demo_config demo_token"
    by simp
  then have "c_value (session_cookie demo_config tok) = c_value (session_cookie demo_config demo_token)"
    by (rule arg_cong)
  then have "tok = demo_token"
    by (simp add: session_cookie_def)
  then have m: "map_of (req_cookies ?req) ''token'' = Some tok"
    by (simp add: json_request_def)
  have a: "token_required demo_crypto demo_config (demo_env\<lparr>now := 86499\<rparr>) ?req ?f demo_db
       = ?f alice_id demo_db"
    using v [OF m, of "demo_env\<lparr>now := 86499\<rparr>" ?f demo_db] uid
    by (simp add: demo_env_def)
  have b: "token_required demo_crypto demo_config (demo_env\<lparr>now := 86500\<rparr>) ?req ?f demo_db
       = (Inr (redirect ''login''), demo_db)"
    using v [OF m, of "demo_env\<lparr>now := 86500\<rparr>" ?f demo_db]
    by (simp add: demo_env_def)
  show ?thesis using a b by (rule conjI)
qed

text \<open>
  C4, as amended. Take two login attempts with string credentials whose user name is
  not empty after stripping and whose password is not empty: one names a user that
  does not exist, the other an existing user with a password that the stored hash
  rejects. Both are answered 401 with the same body, \<^verbatim>\<open>Invalid credentials\<close>, and
  neither changes the database.
\<close>

theorem failed_login_uniform:
  assumes post: "req_method r1 = POST" "req_method r2 = POST"
    and c1: "dict_get (request_data r1) ''username'' (JStr []) = Inr (JStr u1)"
            "dict_get (request_data r1) ''password'' (JStr []) = Inr (JStr p1)"
    and c2: "dict_get (request_data r2) ''username'' (JStr []) = Inr (JStr u2)"
            "dict_get (request_data r2) ''password'' (JStr []) = Inr (JStr p2)"
    and ne: "strip u1 \<noteq> []" "p1 \<noteq> []" "strip u2 \<noteq> []" "p2 \<noteq> []"
    and absent: "\<forall>u\<in>set (users s1). username u \<noteq> strip u1"
    and wrong: "find_one (\<lambda>u. username u = strip u2) (users s2) = Some usr"
               "\<not> check_password_hash lib (password usr) p2"
  shows "login lib cfg e1 r1 s1 = (Inr (json_error ''Invalid credentials'' 401), s1)
       \<and> login lib cfg e2 r2 s2 = (Inr (json_error ''Invalid credentials'' 401), s2)"
proof -
  have "find_one (\<lambda>u. username u = strip u1) (users s1) = None"
    using absent by (auto simp: find_one_def find_None_iff)
  then have a: "login lib cfg e1 r1 s1 = (Inr (json_error ''Invalid credentials'' 401), s1)"
    using post(1) ne(1,2) login_post_string_credentials [OF c1]
    by (simp add: login_def except_500_def)
  have b: "login lib cfg e2 r2 s2 = (Inr (json_error ''Invalid credentials'' 401), s2)"
    using post(2) ne(3,4) wrong login_post_string_credentials [OF c2]
    by (simp add: login_def except_500_def)
  show ?thesis using a b by (rule conjI)
qed

theorem failed_login_uniform_witness:
  "login demo_crypto demo_config demo_env (credentials ''nosuchuser'' ''x'') demo_db
     = (Inr (json_error ''Invalid credentials'' 401), demo_db)
   \<and> login demo_crypto demo_config demo_env (credentials ''alice'' ''wrongpass'') demo_db
     = (Inr (json_error ''Invalid credentials'' 401), demo_db)"
proof -
  have ne: "strip ''nosuchuser'' \<noteq> []" "''x'' \<noteq> []" "strip ''alice'' \<noteq> []" "''wrongpass'' \<noteq> []"
    by (simp_all add: strip_demo)
  have absent: "\<forall>u\<in>set (users demo_db). username u \<noteq> strip ''nosuchuser''"
    by (simp add: strip_demo demo_db_def alice_def bob_def)
  have found: "find_one (\<lambda>u. username u = strip ''alice'') (users demo_db) = Some alice"
    by (simp add: strip_demo demo_find_alice)
  have wrong: "\<not> check_password_hash demo_crypto (password alice) ''wrongpass''"
    by (simp add: demo_crypto_def alice_def)
  show ?thesis
    by (rule failed_login_uniform [OF credentials_data(1) credentials_data(1)
          credentials_data(2,3) credentials_data(2,3) ne absent found wrong])
qed

text \<open>
  The claim as written fails on an empty password: the guard of \<^verbatim>\<open>login\<close> answers
  400 before any user is looked up, so a wrong password that is empty is told apart
  from a user that does not exist.
\<close>

theorem failed_login_empty_password_counterexample:
  "login demo_crypto demo_config demo_env (credentials ''alice'' []) demo_db
     = (Inr (json_error ''Username and password required'' 400), demo_db)
   \<and> login demo_crypto demo_config demo_env (credentials ''nosuchuser'' ''x'') demo_db
     = (Inr (json_error ''Invalid credentials'' 401), demo_db)
   \<and> alice \<in> set (users demo_db) \<and> username alice = ''alice''
   \<and> ''nosuchuser'' \<notin> set (map username (users demo_db))
   \<and> \<not> check_password_hash demo_crypto (password alice) []"
proof -
  have a: "login demo_crypto demo_config demo_env (credentials ''alice'' []) demo_db
     = (Inr (json_error ''Username and password required'' 400), demo_db)"
    using login_post_string_credentials [OF credentials_data(2,3), where name = "''alice''"
        and pw = "[]" and lib = demo_crypto and cfg = demo_config and e = demo_env and s = demo_db]
    by (simp add: login_def except_500_def credentials_data(1))
  have n: "find_one (\<lambda>u. username u = ''nosuchuser'') (users demo_db) = None"
    by (simp add: find_one_def demo_db_def alice_def bob_def)
  have b: "login demo_crypto demo_config demo_env (credentials ''nosuchuser'' ''x'') demo_db
     = (Inr (json_error ''Invalid credentials'' 401), demo_db)"
    using login_post_string_credentials [OF credentials_data(2,3), where name = "''nosuchuser''"
        and pw = "''x''" and lib = demo_crypto and cfg = demo_config and e = demo_env and s = demo_db] n
    by (simp add: login_def except_500_def credentials_data(1) strip_demo)
  have c: "\<not> check_password_hash demo_crypto (password alice) []"
    by (simp add: demo_crypto_def alice_def)
  have d: "alice \<in> set (users demo_db)" "username alice = ''alice''"
    "''nosuchuser'' \<notin> set (map username (users demo_db))"
    by (simp_all add: demo_db_def alice_def bob_def)
  show ?thesis using a b c d by simp
qed

text \<open>
  C5. The update handler stores the content without the checks of creation: a note
  created with the content \<^verbatim>\<open>hi\<close> and then updated with an empty content is
  stored with an empty content.
\<close>

theorem update_stores_empty_content:
  "note_detail (demo_env\<lparr>now := 200\<rparr>) (json_request PUT (JObj [(''content'', JStr [])])) note2_id alice_id
     (snd (notes_view demo_env (json_request POST (JObj [(''content'', JStr ''hi'')])) alice_id
        (demo_db\<lparr>notes_coll := []\<rparr>)))
   = (Inr (json_message ''Note updated'' 200),
      demo_db\<lparr>notes_coll := [\<lparr>n_id = note2_id, user_id = alice_id, title = JStr [],
         content = JStr [], created_at = 100, updated_at = 200\<rparr>]\<rparr>)"
proof -
  have c: "notes_view demo_env (json_request POST (JObj [(''content'', JStr ''hi'')])) alice_id
        (demo_db\<lparr>notes_coll := []\<rparr>)
     = (Inr (jsonify (JObj [(''message'', JStr ''Note created''), (''note_id'', JStr note2_id)]) 201),
        demo_db\<lparr>notes_coll := [\<lparr>n_id = note2_id, user_id = alice_id, title = JStr [],
         content = JStr ''hi'', created_at = 100, updated_at = 100\<rparr>]\<rparr>)"
    by (simp add: notes_view_def notes_post_def except_500_def exn_bind_def json_request_def
          strip_def isspace_def ObjectId_demo insert_one_def demo_db_def demo_env_def str_oid_def)
  have u: "note_detail (demo_env\<lparr>now := 200\<rparr>) (json_request PUT (JObj [(''content'', JStr [])])) note2_id alice_id
      (demo_db\<lparr>notes_coll := [\<lparr>n_id = note2_id, user_id = alice_id, title = JStr [],
         content = JStr ''hi'', created_at = 100, updated_at = 100\<rparr>]\<rparr>)
   = (Inr (json_message ''Note updated'' 200),
      demo_db\<lparr>notes_coll := [\<lparr>n_id = note2_id, user_id = alice_id, title = JStr [],
         content = JStr [], created_at = 100, updated_at = 200\<rparr>]\<rparr>)"
    by (simp add: note_detail_def ObjectId_demo find_one_def json_request_def demo_db_def
          set_fields_def)
  show ?thesis
    unfolding c snd_conv by (rule u)
qed

text \<open>
  C6. The listing bounds \<^verbatim>\<open>per_page\<close> from above only, and does not bound the page.
  For a user with 101 notes, \<^verbatim>\<open>per_page=0\<close> stays 0, is passed on as \<^verbatim>\<open>limit(0)\<close>,
  and the answer lists all 101 notes; \<^verbatim>\<open>per_page=-101\<close> lists them too. With
  \<^verbatim>\<open>page=0\<close> the skip is negative, the query raises, and the answer is 500, where
  \<^verbatim>\<open>page=1\<close> is answered with the first page.
\<close>

theorem listing_unbounded_below:
  "req_per_page ((json_request GET JNull)\<lparr>arg_per_page := Some 0\<rparr>) = 0
   \<and> notes_view demo_env ((json_request GET JNull)\<lparr>arg_per_page := Some 0\<rparr>) alice_id
         (demo_db\<lparr>notes_coll := many_notes\<rparr>)
       = (Inr (jsonify (JArr (map note_json (sort_desc many_notes))) 200),
          demo_db\<lparr>notes_coll := many_notes\<rparr>)
   \<and> notes_view demo_env ((json_request GET JNull)\<lparr>arg_per_page := Some (- 101)\<rparr>) alice_id
         (demo_db\<lparr>notes_coll := many_notes\<rparr>)
       = (Inr (jsonify (JArr (map note_json (sort_desc many_notes))) 200),
          demo_db\<lparr>notes_coll := many_notes\<rparr>)
   \<and> length (map note_json (sort_desc many_notes)) = 101
   \<and> notes_view demo_env ((json_request GET JNull)\<lparr>arg_page := Some 0\<rparr>) alice_id demo_db
       = (Inr (json_error ''Operation failed'' 500), demo_db)
   \<and> notes_view demo_env ((json_request GET JNull)\<lparr>arg_page := Some 1\<rparr>) alice_id demo_db
       = (Inr (jsonify (JArr [note_json note1]) 200), demo_db)"
proof -
  let ?s = "demo_db\<lparr>notes_coll := many_notes\<rparr>"
  have own: "filter (\<lambda>n. user_id n = alice_id) many_notes = many_notes"
    by (simp add: many_notes_def numbered_note_def filter_map o_def)
  have len: "length (sort_desc many_notes) = 101"
    by (simp add: sort_desc_def many_notes_def)
  have z: "find_notes alice_id 0 0 many_notes = Inr (sort_desc many_notes)"
    by (simp add: find_notes_def cursor_skip_def cursor_limit_def exn_bind_def own int64_max_def)
  have n: "find_notes alice_id 0 (- 101) many_notes = Inr (sort_desc many_notes)"
    using len
    by (simp add: find_notes_def cursor_skip_def cursor_limit_def exn_bind_def own int64_max_def)
  have a: "req_per_page ((json_request GET JNull)\<lparr>arg_per_page := Some 0\<rparr>) = 0"
    by (simp add: req_per_page_def)
  have b: "notes_view demo_env ((json_request GET JNull)\<lparr>arg_per_page := Some 0\<rparr>) alice_id ?s
       = (Inr (jsonify (JArr (map note_json (sort_desc many_notes))) 200), ?s)"
    using z
    by (simp add: notes_view_def notes_get_def except_500_def exn_bind_def ObjectId_demo
          req_per_page_def req_page_def json_request_def)
  have c: "notes_view demo_env ((json_request GET JNull)\<lparr>arg_per_page := Some (- 101)\<rparr>) alice_id ?s
       = (Inr (jsonify (JArr (map note_json (sort_desc many_notes))) 200), ?s)"
    using n
    by (simp add: notes_view_def notes_get_def except_500_def exn_bind_def ObjectId_demo
          req_per_page_def req_page_def json_request_def)
  have d: "notes_view demo_env ((json_request GET JNull)\<lparr>arg_page := Some 0\<rparr>) alice_id demo_db
       = (Inr (json_error ''Operation failed'' 500), demo_db)"
    by (simp add: req_per_page_def req_page_def json_request_def notes_view_def notes_get_def
          except_500_def exn_bind_def ObjectId_demo find_notes_def cursor_skip_def)
  have e: "notes_view demo_env ((json_request GET JNull)\<lparr>arg_page := Some 1\<rparr>) alice_id demo_db
       = (Inr (jsonify (JArr [note_json note1]) 200), demo_db)"
    by (simp add: req_per_page_def req_page_def json_request_def notes_view_def notes_get_def
          except_500_def exn_bind_def ObjectId_demo find_notes_def cursor_skip_def cursor_limit_def
          sort_desc_def demo_db_def note1_def int64_max_def)
  show ?thesis
    using a b c d e len by simp
qed

text \<open>
  C7. \<^verbatim>\<open>note_detail\<close> has no \<^verbatim>\<open>try\<close> around its body: a PUT of the owner with
  the JSON body \<^verbatim>\<open>null\<close> raises \<^verbatim>\<open>TypeError\<close> at \<^verbatim>\<open>'title' in data\<close>, and the
  exception leaves the handler and the guard instead of becoming the 500 answer that
  \<^verbatim>\<open>notes\<close>, \<^verbatim>\<open>login\<close> and \<^verbatim>\<open>register\<close> give.
\<close>

theorem put_null_body_escapes:
  "route_note_detail demo_crypto demo_config demo_env
     ((json_request PUT JNull)\<lparr>req_cookies := [(''token'', demo_token)]\<rparr>) note1_id demo_db
   = (Inl TypeError, demo_db)"
proof -
  have v: "jwt_decode demo_crypto demo_token (SECRET_KEY demo_config) (now demo_env)
             = Inr \<lparr>claim_user_id = Some alice_id, claim_exp = Some 86500\<rparr>"
    by (simp add: demo_token_def demo_crypto_def demo_config_def demo_env_def)
  have t: "demo_token \<noteq> []"
    by (simp add: demo_token_def demo_crypto_def)
  have n: "note_detail demo_env ((json_request PUT JNull)\<lparr>req_cookies := [(''token'', demo_token)]\<rparr>)
             note1_id alice_id demo_db = (Inl TypeError, demo_db)"
    by (simp add: note_detail_def ObjectId_demo find_one_def json_request_def demo_db_def note1_def)
  show ?thesis
    using v t n by (simp add: route_note_detail_def token_required_def json_request_def)
qed

text \<open>
  C8, as amended. Let a registration with the user name \<open>name\<close> and the password
  \<open>pw\<close> be answered 201, and let the library accept for the hash of \<open>pw\<close> exactly
  \<open>pw\<close>. Then \<open>pw\<close> has at least 6 characters, and in the database left by the
  registration, also after more users were appended to it, a login with \<open>name\<close> and
  \<open>pw\<close> is answered 200 with the session cookie for the new user, and a login with
  \<open>name\<close> and any other password is not authenticated: it is answered 401, and 400
  when that password is empty.
\<close>

theorem registered_password_round_trip:
  assumes post: "req_method req = POST"
    and u: "dict_get (request_data req) ''username'' (JStr []) = Inr (JStr name)"
    and p: "dict_get (request_data req) ''password'' (JStr []) = Inr (JStr pw)"
    and reg: "register lib e req s = (Inr resp, s')"
    and st: "status resp = 201"
    and hash: "\<forall>pw'. check_password_hash lib (generate_password_hash lib (salt e) pw) pw' = (pw' = pw)"
    and later: "users s'' = users s' @ newer"
    and post': "req_method req' = POST"
    and u': "dict_get (request_data req') ''username'' (JStr []) = Inr (JStr name)"
    and p': "dict_get (request_data req') ''password'' (JStr []) = Inr (JStr pw')"
  shows "6 \<le> length pw
       \<and> (pw' = pw \<longrightarrow>
            login lib cfg e' req' s'' =
              (Inr ((json_message ''Login successful'' 200)
                      \<lparr>set_cookie := Some (session_cookie cfg
                         (jwt_encode lib
                            \<lparr>claim_user_id = Some (str_oid (new_id e)),
                             claim_exp = Some (now e' + JWT_EXPIRATION_DELTA)\<rparr>
                            (SECRET_KEY cfg)))\<rparr>), s''))
       \<and> (pw' \<noteq> pw \<longrightarrow>
            login lib cfg e' req' s'' =
              (Inr (if pw' = [] then json_error ''Username and password required'' 400
                    else json_error ''Invalid credentials'' 401), s''))"
proof -
  let ?new = "\<lparr>u_id = new_id e, username = strip name,
              password = generate_password_hash lib (salt e) pw, u_created_at = now e\<rparr>"
  from register_created_D [OF post u p reg st] have
    ne: "strip name \<noteq> []" and len: "6 \<le> length pw"
    and none: "find_one (\<lambda>u. username u = strip name) (users s) = None"
    and s': "s' = s\<lparr>users := users s @ [?new]\<rparr>"
    by simp_all
  have "find_one (\<lambda>u. username u = strip name) (users s @ [?new]) = Some ?new"
    using none by (rule find_one_snoc) simp
  then have "find_one (\<lambda>u. username u = strip name) ((users s @ [?new]) @ newer) = Some ?new"
    by (rule find_one_append)
  then have f: "find_one (\<lambda>u. username u = strip name) (users s'') = Some ?new"
    using later s' by simp
  have l: "login lib cfg e' req' s'' =
      except_500 ''Login failed'' (login_post lib cfg e' req' s'') s''"
    using post' by (simp add: login_def)
  have pwne: "pw \<noteq> []" using len by auto
  show ?thesis
    using len ne f hash pwne
    by (simp add: l login_post_string_credentials [OF u' p'] except_500_def)
qed

theorem registered_password_round_trip_witness:
  "login demo_crypto demo_config (demo_env\<lparr>now := 150\<rparr>) (credentials '' carol '' ''secret3'')
     (snd (register demo_crypto demo_env (credentials '' carol '' ''secret3'') demo_db))
   = (Inr ((json_message ''Login successful'' 200)
             \<lparr>set_cookie := Some (session_cookie demo_config
                (jwt_encode demo_crypto
                   \<lparr>claim_user_id = Some note2_id, claim_exp = Some 86550\<rparr> ''dev-key-only''))\<rparr>),
      snd (register demo_crypto demo_env (credentials '' carol '' ''secret3'') demo_db))
   \<and> login demo_crypto demo_config (demo_env\<lparr>now := 150\<rparr>) (credentials '' carol '' ''secret4'')
     (snd (register demo_crypto demo_env (credentials '' carol '' ''secret3'') demo_db))
   = (Inr (json_error ''Invalid credentials'' 401),
      snd (register demo_crypto demo_env (credentials '' carol '' ''secret3'') demo_db))"
proof -
  let ?s' = "demo_db\<lparr>users := [alice, bob,
           \<lparr>u_id = note2_id, username = ''carol'', password = ''s3$secret3'', u_created_at = 100\<rparr>]\<rparr>"
  have st: "status (json_message ''User created successfully'' 201) = 201"
    by (simp add: json_message_def jsonify_def)
  have hash: "\<forall>pw'. check_password_hash demo_crypto
                  (generate_password_hash demo_crypto (salt demo_env) ''secret3'') pw' = (pw' = ''secret3'')"
    by (auto simp: demo_crypto_def demo_env_def)
  have later: "users ?s' = users ?s' @ []" by simp
  note t = registered_password_round_trip [OF credentials_data demo_register st hash later
      credentials_data, where cfg = demo_config and e' = "demo_env\<lparr>now := 150\<rparr>"]
  have a: "login demo_crypto demo_config (demo_env\<lparr>now := 150\<rparr>) (credentials '' carol '' ''secret3'') ?s'
   = (Inr ((json_message ''Login successful'' 200)
             \<lparr>set_cookie := Some (session_cookie demo_config
                (jwt_encode demo_crypto
                   \<lparr>claim_user_id = Some note2_id, claim_exp = Some 86550\<rparr> ''dev-key-only''))\<rparr>), ?s')"
    using t [of "''secret3''"]
    by (simp add: str_oid_def demo_env_def demo_config_def JWT_EXPIRATION_DELTA_def)
  have b: "login demo_crypto demo_config (demo_env\<lparr>now := 150\<rparr>) (credentials '' carol '' ''secret4'') ?s'
   = (Inr (json_error ''Invalid credentials'' 401), ?s')"
    using t [of "''secret4''"] by simp
  show ?thesis
    unfolding demo_register snd_conv using a b by (rule conjI)
qed

text \<open>
  The claim as written fails on the empty password, which is answered 400 and not 401.
\<close>

theorem empty_password_counterexample:
  "register demo_crypto demo_env (credentials '' carol '' ''secret3'') demo_db
     = (Inr (json_message ''User created successfully'' 201),
        demo_db\<lparr>users := [alice, bob,
           \<lparr>u_id = note2_id, username = ''carol'', password = ''s3$secret3'', u_created_at = 100\<rparr>]\<rparr>)
   \<and> login demo_crypto demo_config (demo_env\<lparr>now := 150\<rparr>) (credentials '' carol '' [])
        (demo_db\<lparr>users := [alice, bob,
           \<lparr>u_id = note2_id, username = ''carol'', password = ''s3$secret3'', u_created_at = 100\<rparr>]\<rparr>)
     = (Inr (json_error ''Username and password required'' 400),
        demo_db\<lparr>users := [alice, bob,
           \<lparr>u_id = note2_id, username = ''carol'', password = ''s3$secret3'', u_created_at = 100\<rparr>]\<rparr>)
   \<and> status (json_error ''Username and password required'' 400) \<noteq> 401"
proof -
  have "login demo_crypto demo_config (demo_env\<lparr>now := 150\<rparr>) (credentials '' carol '' [])
        (demo_db\<lparr>users := [alice, bob,
           \<lparr>u_id = note2_id, username = ''carol'', password = ''s3$secret3'', u_created_at = 100\<rparr>]\<rparr>)
     = (Inr (json_error ''Username and password required'' 400),
        demo_db\<lparr>users := [alice, bob,
           \<lparr>u_id = note2_id, username = ''carol'', password = ''s3$secret3'', u_created_at = 100\<rparr>]\<rparr>)"
    by (simp add: login_def except_500_def credentials_data login_post_string_credentials [OF credentials_data(2,3)])
  then show ?thesis
    using demo_register by (simp add: json_error_def jsonify_def)
qed

text \<open>
  C9. A PUT on \<^verbatim>\<open>/api/notes/<note_id>\<close> that answers 200 found a note with this id
  owned by the user of the session. In the new collection this note has
  \<^verbatim>\<open>updated_at\<close> set to the time of the request, its title replaced exactly when
  the body holds the key \<^verbatim>\<open>title\<close> and its content exactly when the body holds
  the key \<^verbatim>\<open>content\<close>; its id, owner and creation time are as before, every other
  note is as before, and the users are as before. The ids of the notes are pairwise
  different, as the unique index on \<^verbatim>\<open>_id\<close> keeps them
  in every database the service can reach (\<open>reachable_distinct\<close>).
\<close>

theorem put_changes_only_requested_fields:
  assumes d: "distinct (map n_id (notes_coll s))"
    and put: "req_method req = PUT"
    and ok: "note_detail e req note_id uid s = (Inr resp, s')"
    and st: "status resp = 200"
  shows "\<exists>nid owner old new_title new_content.
           ObjectId note_id = Inr nid \<and> ObjectId uid = Inr owner
         \<and> old \<in> set (notes_coll s) \<and> n_id old = nid \<and> user_id old = owner
         \<and> field_if_present (get_json req) ''title'' = Inr new_title
         \<and> field_if_present (get_json req) ''content'' = Inr new_content
         \<and> notes_coll s' =
             map (\<lambda>x. if n_id x = nid
                       then x\<lparr>updated_at := now e,
                              title := (case new_title of None \<Rightarrow> title x | Some v \<Rightarrow> v),
                              content := (case new_content of None \<Rightarrow> content x | Some v \<Rightarrow> v)\<rparr>
                       else x) (notes_coll s)
         \<and> users s' = users s
         \<and> resp = json_message ''Note updated'' 200"
proof -
  from ok st obtain nid where nid: "ObjectId note_id = Inr nid"
    by (cases "ObjectId note_id") (auto simp: note_detail_def json_error_def jsonify_def)
  from ok nid obtain owner where owner: "ObjectId uid = Inr owner"
    by (cases "ObjectId uid") (auto simp: note_detail_def)
  from ok st nid owner obtain old where
    old: "find_one (\<lambda>n. n_id n = nid \<and> user_id n = owner) (notes_coll s) = Some old"
    by (cases "find_one (\<lambda>n. n_id n = nid \<and> user_id n = owner) (notes_coll s)")
       (auto simp: note_detail_def json_error_def jsonify_def)
  from ok nid owner old put obtain new_title where
    t: "field_if_present (get_json req) ''title'' = Inr new_title"
    by (cases "field_if_present (get_json req) ''title''") (auto simp: note_detail_def)
  from ok nid owner old put t obtain new_content where
    c: "field_if_present (get_json req) ''content'' = Inr new_content"
    by (cases "field_if_present (get_json req) ''content''") (auto simp: note_detail_def)
  from ok nid owner old put t c have
    r: "resp = json_message ''Note updated'' 200"
    and s': "s' = s\<lparr>notes_coll := update_one (\<lambda>n. n_id n = nid) (set_fields (now e) new_title new_content) (notes_coll s)\<rparr>"
    by (auto simp: note_detail_def)
  have "notes_coll s' = map (\<lambda>x. if n_id x = nid then set_fields (now e) new_title new_content x else x) (notes_coll s)"
    using s' update_one_distinct [OF d] by simp
  then show ?thesis
    using nid owner find_one_Some_D [OF old] t c r s'
    by (auto simp: set_fields_def)
qed

theorem put_changes_only_requested_fields_witness:
  "notes_coll (snd (note_detail demo_env (json_request PUT (JObj [(''content'', JStr ''new'')]))
       note1_id alice_id demo_db))
     = [note1\<lparr>updated_at := 100, content := JStr ''new''\<rparr>]"
proof -
  let ?req = "json_request PUT (JObj [(''content'', JStr ''new'')])"
  obtain resp s' where ok: "note_detail demo_env ?req note1_id alice_id demo_db = (Inr resp, s')"
    and st: "status resp = 200"
    by (simp add: note_detail_def ObjectId_demo find_one_def demo_db_def note1_def json_request_def
          json_message_def jsonify_def)
  have d: "distinct (map n_id (notes_coll demo_db))" by (simp add: demo_db_def)
  have put: "req_method ?req = PUT" by (simp add: json_request_def)
  from put_changes_only_requested_fields [OF d put ok st] obtain nid new_title new_content where
    "ObjectId note1_id = Inr nid"
    "field_if_present (get_json ?req) ''title'' = Inr new_title"
    "field_if_present (get_json ?req) ''content'' = Inr new_content"
    "notes_coll s' =
             map (\<lambda>x. if n_id x = nid
                       then x\<lparr>updated_at := now demo_env,
                              title := (case new_title of None \<Rightarrow> title x | Some v \<Rightarrow> v),
                              content := (case new_content of None \<Rightarrow> content x | Some v \<Rightarrow> v)\<rparr>
                       else x) (notes_coll demo_db)"
    by blast
  then have "notes_coll s' = [note1\<lparr>updated_at := 100, content := JStr ''new''\<rparr>]"
    by (auto simp: ObjectId_demo json_request_def demo_db_def note1_def demo_env_def)
  with ok show ?thesis by simp
qed

text \<open>
  C10. Creation strips the title and the content before it checks and stores them.
  A body whose content is a string of white space only, with a title that is absent or
  a string, is answered 400 with the message that the content is required, and nothing
  is stored. When creation answers 201, the title and the content of the request were
  strings, the note appended to the collection holds them stripped, the stripped
  content has 1 to 10000 characters and the stripped title at most 200, and neither
  starts or ends with a white space character.
\<close>

theorem create_strips_title_and_content:
  "(req_method req = POST \<and> get_json req = JObj kvs
      \<and> (map_of kvs ''title'' = None \<or> (\<exists>t. map_of kvs ''title'' = Some (JStr t)))
      \<and> (\<exists>c. map_of kvs ''content'' = Some (JStr c) \<and> (\<forall>ch\<in>set c. isspace ch))
    \<longrightarrow> notes_view e req uid s = (Inr (json_error ''Content is required'' 400), s))
   \<and> (req_method req = POST \<and> notes_view e req uid s = (Inr resp, s') \<and> status resp = 201
    \<longrightarrow> (\<exists>tv cv owner t c.
           dict_get (get_json req) ''title'' (JStr []) = Inr (JStr tv)
         \<and> dict_get (get_json req) ''content'' (JStr []) = Inr (JStr cv)
         \<and> t = strip tv \<and> c = strip cv
         \<and> length t \<le> 200 \<and> 1 \<le> length c \<and> length c \<le> 10000
         \<and> (t = [] \<or> (\<not> isspace (hd t) \<and> \<not> isspace (last t)))
         \<and> \<not> isspace (hd c) \<and> \<not> isspace (last c)
         \<and> notes_coll s' = notes_coll s @
              [\<lparr>n_id = new_id e, user_id = owner, title = JStr t, content = JStr c,
                created_at = now e, updated_at = now e\<rparr>]))"
proof (intro conjI impI)
  assume a: "req_method req = POST \<and> get_json req = JObj kvs
      \<and> (map_of kvs ''title'' = None \<or> (\<exists>t. map_of kvs ''title'' = Some (JStr t)))
      \<and> (\<exists>c. map_of kvs ''content'' = Some (JStr c) \<and> (\<forall>ch\<in>set c. isspace ch))"
  then obtain c where c: "map_of kvs ''content'' = Some (JStr c)" "strip c = []"
    using strip_all_space by blast
  then have "kvs \<noteq> []" by auto
  with a c show "notes_view e req uid s = (Inr (json_error ''Content is required'' 400), s)"
    by (auto simp: notes_view_def notes_post_def except_500_def exn_bind_def)
next
  assume a: "req_method req = POST \<and> notes_view e req uid s = (Inr resp, s') \<and> status resp = 201"
  then have "req_method req = POST" and "notes_view e req uid s = (Inr resp, s')"
    by simp_all
  then have p: "except_500 ''Operation failed'' (notes_post uid e req s) s = (Inr resp, s')"
    by (simp add: notes_view_def)
  from a have st: "status resp = 201" by simp
  from p st have r: "notes_post uid e req s = Inr (resp, s')"
    by (cases "notes_post uid e req s") (auto simp: except_500_def json_error_def jsonify_def)
  from r st have tr: "truthy (get_json req)"
    by (auto simp: notes_post_def json_error_def jsonify_def split: if_splits)
  from r tr obtain tj where tj: "dict_get (get_json req) ''title'' (JStr []) = Inr tj"
    by (cases "dict_get (get_json req) ''title'' (JStr [])") (auto simp: notes_post_def exn_bind_def)
  from r tr tj obtain tv where tv: "tj = JStr tv"
    by (cases tj) (auto simp: notes_post_def exn_bind_def)
  from r tr tj tv obtain cj where cj: "dict_get (get_json req) ''content'' (JStr []) = Inr cj"
    by (cases "dict_get (get_json req) ''content'' (JStr [])") (auto simp: notes_post_def exn_bind_def)
  from r tr tj tv cj obtain cv where cv: "cj = JStr cv"
    by (cases cj) (auto simp: notes_post_def exn_bind_def)
  from r st tr tj tv cj cv have
    b: "strip cv \<noteq> []" "length (strip cv) \<le> 10000" "length (strip tv) \<le> 200"
    by (auto simp: notes_post_def exn_bind_def json_error_def jsonify_def split: if_splits)
  from r tr tj tv cj cv b obtain owner where
    s': "notes_coll s' = notes_coll s @
              [\<lparr>n_id = new_id e, user_id = owner, title = JStr (strip tv), content = JStr (strip cv),
                created_at = now e, updated_at = now e\<rparr>]"
    by (auto simp: notes_post_def exn_bind_def insert_one_def split: sum.splits if_splits)
  have "1 \<le> length (strip cv)" using b(1) by (cases "strip cv") auto
  then show "\<exists>tv cv owner t c.
           dict_get (get_json req) ''title'' (JStr []) = Inr (JStr tv)
         \<and> dict_get (get_json req) ''content'' (JStr []) = Inr (JStr cv)
         \<and> t = strip tv \<and> c = strip cv
         \<and> length t \<le> 200 \<and> 1 \<le> length c \<and> length c \<le> 10000
         \<and> (t = [] \<or> (\<not> isspace (hd t) \<and> \<not> isspace (last t)))
         \<and> \<not> isspace (hd c) \<and> \<not> isspace (last c)
         \<and> notes_coll s' = notes_coll s @
              [\<lparr>n_id = new_id e, user_id = owner, title = JStr t, content = JStr c,
                created_at = now e, updated_at = now e\<rparr>]"
    using tj tv cj cv b s' strip_edges [of tv] strip_edges [of cv] by auto
qed

theorem create_strips_title_and_content_witness:
  "notes_view demo_env (json_request POST (JObj [(''content'', JStr ''  '')])) alice_id demo_db
     = (Inr (json_error ''Content is required'' 400), demo_db)
   \<and> last (notes_coll (snd (notes_view demo_env
        (json_request POST (JObj [(''title'', JStr '' a ''), (''content'', JStr '' hello '')])) alice_id demo_db)))
     = \<lparr>n_id = note2_id, user_id = alice_id, title = JStr ''a'', content = JStr ''hello'',
        created_at = 100, updated_at = 100\<rparr>"
proof -
  let ?r1 = "json_request POST (JObj [(''content'', JStr ''  '')])"
  let ?r2 = "json_request POST (JObj [(''title'', JStr '' a ''), (''content'', JStr '' hello '')])"
  have a: "notes_view demo_env ?r1 alice_id demo_db = (Inr (json_error ''Content is required'' 400), demo_db)"
    using create_strips_title_and_content [where req = ?r1 and kvs = "[(''content'', JStr ''  '')]"
        and e = demo_env and uid = alice_id and s = demo_db]
    by (simp add: json_request_def isspace_def)
  obtain resp s' where ok: "notes_view demo_env ?r2 alice_id demo_db = (Inr resp, s')"
    and st: "status resp = 201"
    and own: "user_id (last (notes_coll s')) = alice_id"
    by (simp add: notes_view_def notes_post_def except_500_def exn_bind_def json_request_def
          strip_def isspace_def ObjectId_demo insert_one_def demo_db_def demo_env_def note1_def
          demo_ids_distinct demo_ids_distinct [symmetric] jsonify_def)
  have "req_method ?r2 = POST \<and> notes_view demo_env ?r2 alice_id demo_db = (Inr resp, s') \<and> status resp = 201"
    using ok st by (simp add: json_request_def)
  with create_strips_title_and_content [where req = ?r2 and e = demo_env and uid = alice_id
      and s = demo_db and resp = resp and s' = s']
  obtain tv cv owner where
    "dict_get (get_json ?r2) ''title'' (JStr []) = Inr (JStr tv)"
    "dict_get (get_json ?r2) ''content'' (JStr []) = Inr (JStr cv)"
    "notes_coll s' = notes_coll demo_db @
              [\<lparr>n_id = new_id demo_env, user_id = owner, title = JStr (strip tv), content = JStr (strip cv),
                created_at = now demo_env, updated_at = now demo_env\<rparr>]"
    by blast
  then have "last (notes_coll s') = \<lparr>n_id = note2_id, user_id = alice_id, title = JStr ''a'', content = JStr ''hello'',
        created_at = 100, updated_at = 100\<rparr>"
    using own by (auto simp: json_request_def strip_def isspace_def demo_env_def)
  with a ok show ?thesis by simp
qed

end
